theory Spec2Isabelle
  imports Main
begin

section \<open>JavaScript values and built-ins used by the server\<close>

text \<open>
  A string is a list of code units; only code units below 256 are representable, read as
  Latin-1. A value obtained from \<^verbatim>\<open>JSON.parse\<close> is a \<open>json\<close>; a number is kept as the
  decimal text that \<^verbatim>\<open>Number.prototype.toString\<close> yields for it (so \<open>0\<close> and \<open>-0\<close> are
  both \<open>''0''\<close>), and an object as its own properties in enumeration order. A destructured
  field that may be \<^verbatim>\<open>undefined\<close> is a \<open>json option\<close>.
\<close>

datatype json =
    JNull
  | JBool bool
  | JNum string
  | JStr string
  | JArr "json list"
  | JObj "(string \<times> json) list"

text \<open>
  Truthiness of a defined value (\<^verbatim>\<open>!v\<close> is its negation); \<^verbatim>\<open>undefined\<close> is falsy.
  The falsy numbers are zero and \<^verbatim>\<open>NaN\<close>; \<^verbatim>\<open>Infinity\<close> is truthy.
\<close>

fun truthy :: "json \<Rightarrow> bool" where
  "truthy JNull = False"
| "truthy (JBool b) = b"
| "truthy (JNum n) = (n \<noteq> ''0'' \<and> n \<noteq> ''NaN'')"
| "truthy (JStr s) = (s \<noteq> [])"
| "truthy (JArr xs) = True"
| "truthy (JObj kvs) = True"

text \<open>
  \<^verbatim>\<open>String(v)\<close>. \<open>None\<close> is a thrown TypeError: an object parsed from JSON whose own
  property \<^verbatim>\<open>toString\<close> shadows the inherited method cannot be converted to a primitive.
  An array is joined with commas, \<^verbatim>\<open>null\<close> elements rendering as the empty string.
\<close>

fun String_js :: "json \<Rightarrow> string option"
  and join_js :: "json list \<Rightarrow> string option"
  and element_js :: "json \<Rightarrow> string option" where
  "String_js JNull = Some ''null''"
| "String_js (JBool b) = Some (if b then ''true'' else ''false'')"
| "String_js (JNum n) = Some n"
| "String_js (JStr s) = Some s"
| "String_js (JArr xs) = join_js xs"
| "String_js (JObj kvs) =
     (if ''toString'' \<in> set (map fst kvs) then None else Some ''[object Object]'')"
| "join_js [] = Some []"
| "join_js [x] = element_js x"
| "join_js (x # y # ys) =
     (case element_js x of
        None \<Rightarrow> None
      | Some s \<Rightarrow> (case join_js (y # ys) of None \<Rightarrow> None | Some t \<Rightarrow> Some (s @ '','' @ t)))"
| "element_js JNull = Some []"
| "element_js (JBool b) = String_js (JBool b)"
| "element_js (JNum n) = String_js (JNum n)"
| "element_js (JStr s) = String_js (JStr s)"
| "element_js (JArr xs) = String_js (JArr xs)"
| "element_js (JObj kvs) = String_js (JObj kvs)"

text \<open>\<^verbatim>\<open>String.prototype.trim\<close>: the white space and line terminators below 256.\<close>

definition is_space :: "char \<Rightarrow> bool" where
  "is_space c = (of_char c \<in> {9, 10, 11, 12, 13, 32, 160 :: nat})"

definition trim :: "string \<Rightarrow> string" where
  "trim s = rev (dropWhile is_space (rev (dropWhile is_space s)))"

text \<open>
  \<^verbatim>\<open>JSON.stringify\<close> without indentation. A number that is not finite is written as
  \<^verbatim>\<open>null\<close>: \<^verbatim>\<open>JSON.parse\<close> yields \<^verbatim>\<open>Infinity\<close> for a literal beyond the double range, such
  as \<^verbatim>\<open>1e400\<close> (it never yields \<^verbatim>\<open>NaN\<close>, which is covered all the same).
\<close>

definition hex_digit :: "nat \<Rightarrow> char" where
  "hex_digit n = (if n < 10 then char_of (48 + n) else char_of (87 + n))"

definition escape_char :: "char \<Rightarrow> string" where
  "escape_char c =
     (if c = CHR 0x22 then [CHR 0x5C, CHR 0x22]
      else if c = CHR 0x5C then [CHR 0x5C, CHR 0x5C]
      else if c = CHR 0x08 then [CHR 0x5C, CHR ''b'']
      else if c = CHR 0x0C then [CHR 0x5C, CHR ''f'']
      else if c = CHR 0x0A then [CHR 0x5C, CHR ''n'']
      else if c = CHR 0x0D then [CHR 0x5C, CHR ''r'']
      else if c = CHR 0x09 then [CHR 0x5C, CHR ''t'']
      else if (of_char c :: nat) < 32
        then [CHR 0x5C] @ ''u00'' @ [hex_digit (of_char c div 16), hex_digit (of_char c mod 16)]
      else [c])"

definition quote :: "string \<Rightarrow> string" where
  "quote s = [CHR 0x22] @ concat (map escape_char s) @ [CHR 0x22]"

fun commas :: "string list \<Rightarrow> string" where
  "commas [] = []"
| "commas [x] = x"
| "commas (x # y # ys) = x @ '','' @ commas (y # ys)"

fun JSON_stringify :: "json \<Rightarrow> string"
  and stringify_elements :: "json list \<Rightarrow> string list"
  and stringify_members :: "(string \<times> json) list \<Rightarrow> string list" where
  "JSON_stringify JNull = ''null''"
| "JSON_stringify (JBool b) = (if b then ''true'' else ''false'')"
| "JSON_stringify (JNum n) =
     (if n = ''Infinity'' \<or> n = ''-Infinity'' \<or> n = ''NaN'' then ''null'' else n)"
| "JSON_stringify (JStr s) = quote s"
| "JSON_stringify (JArr xs) = ''['' @ commas (stringify_elements xs) @ '']''"
| "JSON_stringify (JObj kvs) = ''{'' @ commas (stringify_members kvs) @ ''}''"
| "stringify_elements [] = []"
| "stringify_elements (x # xs) = JSON_stringify x # stringify_elements xs"
| "stringify_members [] = []"
| "stringify_members ((k, v) # kvs) = (quote k @ '':'' @ JSON_stringify v) # stringify_members kvs"

text \<open>
  Reading a property that no prototype supplies (\<open>room\<close>, \<open>name\<close>, \<open>from\<close>, \<open>target\<close>,
  \<open>data\<close>, \<open>clientId\<close>) off a value that is not \<^verbatim>\<open>null\<close>: defined only on an object
  that has it as an own property. Destructuring \<^verbatim>\<open>null\<close> itself throws, which the
  handlers test before reading.
\<close>

fun get_prop :: "json \<Rightarrow> string \<Rightarrow> json option" where
  "get_prop (JObj kvs) k = map_of kvs k"
| "get_prop v k = None"

section \<open>The \<^verbatim>\<open>Map\<close> of the runtime\<close>

text \<open>
  A \<^verbatim>\<open>Map\<close> iterates in insertion order; \<^verbatim>\<open>set\<close> on a key already present keeps its
  position. It is an association list.
\<close>

definition map_get :: "('k \<times> 'v) list \<Rightarrow> 'k \<Rightarrow> 'v option" where
  "map_get m k = map_of m k"

fun map_set :: "'k \<Rightarrow> 'v \<Rightarrow> ('k \<times> 'v) list \<Rightarrow> ('k \<times> 'v) list" where
  "map_set k v [] = [(k, v)]"
| "map_set k v (p # ps) = (if fst p = k then (k, v) # ps else p # map_set k v ps)"

definition map_delete :: "'k \<Rightarrow> ('k \<times> 'v) list \<Rightarrow> ('k \<times> 'v) list" where
  "map_delete k m = filter (\<lambda>p. fst p \<noteq> k) m"

section \<open>The room registry (lib/rooms.js)\<close>

text \<open>
  A response object is identified by a \<open>handle\<close>. Everything the server does to a response
  object is appended to \<open>trace\<close>, oldest first. \<open>heartbeats\<close> are the response objects
  whose keep-alive interval is running.
\<close>

type_synonym handle = nat

datatype effect =
    WriteHead handle nat "(string \<times> string) list"
  | Write handle string
  | End handle "string option"
  | Status handle nat
  | Json handle json

record client =
  name :: string
  res :: "handle option"

record room =
  clients :: "(string \<times> client) list"

record state =
  rooms :: "(string \<times> room) list"
  trace :: "effect list"
  heartbeats :: "handle list"

definition init :: state where
  "init = \<lparr>rooms = [], trace = [], heartbeats = []\<rparr>"

definition emit :: "effect list \<Rightarrow> state \<Rightarrow> state" where
  "emit es st = st\<lparr>trace := trace st @ es\<rparr>"

definition getRoom :: "string \<Rightarrow> state \<Rightarrow> room \<times> state" where
  "getRoom roomId st =
     (case map_get (rooms st) roomId of
        Some r \<Rightarrow> (r, st)
      | None \<Rightarrow> (\<lparr>clients = []\<rparr>, st\<lparr>rooms := map_set roomId \<lparr>clients = []\<rparr> (rooms st)\<rparr>))"

definition sendEvent :: "handle \<Rightarrow> string \<Rightarrow> json \<Rightarrow> state \<Rightarrow> state" where
  "sendEvent h event payload st =
     emit [Write h (''event: '' @ event @ [CHR 0x0A]),
           Write h (''data: '' @ JSON_stringify payload @ [CHR 0x0A, CHR 0x0A])] st"

definition broadcast :: "string \<Rightarrow> string \<Rightarrow> string \<Rightarrow> json \<Rightarrow> state \<Rightarrow> state" where
  "broadcast roomId excludeClientId event payload st =
     (case map_get (rooms st) roomId of
        None \<Rightarrow> st
      | Some r \<Rightarrow>
          foldl (\<lambda>s (cid, c).
                   if cid = excludeClientId then s
                   else (case res c of None \<Rightarrow> s | Some h \<Rightarrow> sendEvent h event payload s))
                st (clients r))"

definition removeClient :: "string \<Rightarrow> string \<Rightarrow> state \<Rightarrow> state" where
  "removeClient roomId clientId st =
     (case map_get (rooms st) roomId of
        None \<Rightarrow> st
      | Some r \<Rightarrow>
          (case map_get (clients r) clientId of
             None \<Rightarrow> st
           | Some c \<Rightarrow>
               (let st1 = (case res c of None \<Rightarrow> st | Some h \<Rightarrow> emit [End h None] st);
                    r' = r\<lparr>clients := map_delete clientId (clients r)\<rparr>;
                    st2 = st1\<lparr>rooms := map_set roomId r' (rooms st1)\<rparr>
                in if length (clients r') = 0
                   then st2\<lparr>rooms := map_delete roomId (rooms st2)\<rparr>
                   else broadcast roomId clientId ''peer-left''
                          (JObj [(''clientId'', JStr clientId)]) st2)))"

section \<open>The HTTP handlers (index.js)\<close>

text \<open>
  A handler receives the response object \<open>h\<close> and what \<^verbatim>\<open>parseBody\<close> resolved to:
  \<open>None\<close> when the promise was rejected (the body is not JSON), otherwise the parsed value
  (\<open>JObj []\<close> for a request without body). \<open>generated\<close> is what \<^verbatim>\<open>generateClientId()\<close>
  returns when the handler calls it. Every exception raised inside a handler of index.js
  is caught by its \<^verbatim>\<open>catch\<close> block.
\<close>

definition json_reply :: "handle \<Rightarrow> nat \<Rightarrow> json \<Rightarrow> state \<Rightarrow> state" where
  "json_reply h code v st =
     emit [WriteHead h code [(''Content-Type'', ''application/json'')],
           End h (Some (JSON_stringify v))] st"

definition error_body :: "string \<Rightarrow> json" where
  "error_body msg = JObj [(''error'', JStr msg)]"

text \<open>\<^verbatim>\<open>room ? String(room).trim() : ''\<close>; \<open>None\<close> when \<^verbatim>\<open>String\<close> throws.\<close>

definition roomId_of :: "json option \<Rightarrow> string option" where
  "roomId_of v =
     (case v of
        None \<Rightarrow> Some []
      | Some x \<Rightarrow> if truthy x then map_option trim (String_js x) else Some [])"

text \<open>\<^verbatim>\<open>name ? String(name).trim().slice(0, 64) : ''\<close>.\<close>

definition userName_of :: "json option \<Rightarrow> string option" where
  "userName_of v =
     (case v of
        None \<Rightarrow> Some []
      | Some x \<Rightarrow> if truthy x then map_option (\<lambda>s. take 64 (trim s)) (String_js x) else Some [])"

definition peer_entry :: "string \<times> client \<Rightarrow> json" where
  "peer_entry p = JObj [(''clientId'', JStr (fst p)), (''name'', JStr (name (snd p)))]"

definition handleJoin :: "handle \<Rightarrow> string \<Rightarrow> json option \<Rightarrow> state \<Rightarrow> state" where
  "handleJoin h generated body st =
     (case body of
        None \<Rightarrow> json_reply h 400 (error_body ''Invalid JSON body'') st
      | Some b \<Rightarrow>
          if b = JNull then json_reply h 400 (error_body ''Invalid JSON body'') st
          else
            (case roomId_of (get_prop b ''room'') of
               None \<Rightarrow> json_reply h 400 (error_body ''Invalid JSON body'') st
             | Some roomId \<Rightarrow>
                 (case userName_of (get_prop b ''name'') of
                    None \<Rightarrow> json_reply h 400 (error_body ''Invalid JSON body'') st
                  | Some userName \<Rightarrow>
                      if roomId = [] \<or> userName = []
                      then json_reply h 400 (error_body ''Missing room or name'') st
                      else
                        (case getRoom roomId st of
                           (roomData, st1) \<Rightarrow>
                             (let existingPeers = map peer_entry (clients roomData);
                                  clientId = generated;
                                  roomData' = roomData\<lparr>clients :=
                                    map_set clientId \<lparr>name = userName, res = None\<rparr>
                                      (clients roomData)\<rparr>;
                                  st2 = st1\<lparr>rooms := map_set roomId roomData' (rooms st1)\<rparr>;
                                  st3 = json_reply h 200
                                    (JObj [(''clientId'', JStr clientId), (''room'', JStr roomId),
                                           (''peers'', JArr existingPeers)]) st2
                              in broadcast roomId clientId ''peer-joined''
                                   (JObj [(''clientId'', JStr clientId), (''name'', JStr userName)])
                                   st3)))))"

definition handleSignal :: "handle \<Rightarrow> json option \<Rightarrow> state \<Rightarrow> state" where
  "handleSignal h body st =
     (case body of
        None \<Rightarrow> json_reply h 400 (error_body ''Invalid JSON body'') st
      | Some b \<Rightarrow>
          if b = JNull then json_reply h 400 (error_body ''Invalid JSON body'') st
          else
            (case (get_prop b ''room'', get_prop b ''from'', get_prop b ''target'',
                   get_prop b ''data'') of
               (Some room, Some from, Some target, Some data) \<Rightarrow>
                 if \<not> truthy room \<or> \<not> truthy from \<or> \<not> truthy target \<or> \<not> truthy data
                 then json_reply h 400 (error_body ''Missing required fields'') st
                 else
                   (case String_js room of
                      None \<Rightarrow> json_reply h 400 (error_body ''Invalid JSON body'') st
                    | Some roomId \<Rightarrow>
                        (case map_get (rooms st) roomId of
                           None \<Rightarrow> json_reply h 404 (error_body ''Room not found'') st
                         | Some roomData \<Rightarrow>
                             (case String_js target of
                                None \<Rightarrow> json_reply h 400 (error_body ''Invalid JSON body'') st
                              | Some targetId \<Rightarrow>
                                  (case map_get (clients roomData) targetId of
                                     None \<Rightarrow>
                                       json_reply h 409 (error_body ''Recipient unavailable'') st
                                   | Some recipient \<Rightarrow>
                                       (case res recipient of
                                          None \<Rightarrow>
                                            json_reply h 409
                                              (error_body ''Recipient unavailable'') st
                                        | Some stream \<Rightarrow>
                                            emit [WriteHead h 204 [], End h None]
                                              (sendEvent stream ''signal''
                                                 (JObj [(''from'', from), (''data'', data)])
                                                 st))))))
             | _ \<Rightarrow> json_reply h 400 (error_body ''Missing required fields'') st))"

definition handleLeave :: "handle \<Rightarrow> json option \<Rightarrow> state \<Rightarrow> state" where
  "handleLeave h body st =
     (case body of
        None \<Rightarrow> json_reply h 400 (error_body ''Invalid JSON body'') st
      | Some b \<Rightarrow>
          if b = JNull then json_reply h 400 (error_body ''Invalid JSON body'') st
          else
            (case (get_prop b ''room'', get_prop b ''clientId'') of
               (Some room, Some clientId) \<Rightarrow>
                 if \<not> truthy room \<or> \<not> truthy clientId
                 then json_reply h 400 (error_body ''Missing room or clientId'') st
                 else
                   (case String_js room of
                      None \<Rightarrow> json_reply h 400 (error_body ''Invalid JSON body'') st
                    | Some roomId \<Rightarrow>
                        (case String_js clientId of
                           None \<Rightarrow> json_reply h 400 (error_body ''Invalid JSON body'') st
                         | Some cid \<Rightarrow>
                             emit [WriteHead h 204 [], End h None] (removeClient roomId cid st)))
             | _ \<Rightarrow> json_reply h 400 (error_body ''Missing room or clientId'') st))"

text \<open>
  \<^verbatim>\<open>GET /events\<close>: the two query parameters are strings or \<^verbatim>\<open>null\<close>. The values stored
  in a session table are objects, so \<^verbatim>\<open>has\<close> holds exactly when \<^verbatim>\<open>get\<close> finds an entry.
\<close>

definition handleEventStream :: "handle \<Rightarrow> string option \<Rightarrow> string option \<Rightarrow> state \<Rightarrow> state" where
  "handleEventStream h roomParam clientParam st =
     (case (roomParam, clientParam) of
        (Some roomId, Some clientId) \<Rightarrow>
          if roomId = [] \<or> clientId = []
          then emit [WriteHead h 400 [], End h (Some ''Missing room or clientId'')] st
          else
            (case map_get (rooms st) roomId of
               None \<Rightarrow> emit [WriteHead h 404 [], End h (Some ''Client not registered in room'')] st
             | Some roomData \<Rightarrow>
                 (case map_get (clients roomData) clientId of
                    None \<Rightarrow>
                      emit [WriteHead h 404 [], End h (Some ''Client not registered in room'')] st
                  | Some c \<Rightarrow>
                      (let st1 = emit [WriteHead h 200
                                         [(''Content-Type'', ''text/event-stream''),
                                          (''Cache-Control'', ''no-cache''),
                                          (''Connection'', ''keep-alive''),
                                          (''Access-Control-Allow-Origin'', ''*'')],
                                       Write h [CHR 0x0A]] st;
                           roomData' = roomData\<lparr>clients :=
                             map_set clientId (c\<lparr>res := Some h\<rparr>) (clients roomData)\<rparr>;
                           st2 = st1\<lparr>rooms := map_set roomId roomData' (rooms st1)\<rparr>
                       in st2\<lparr>heartbeats := heartbeats st2 @ [h]\<rparr>)))
      | _ \<Rightarrow> emit [WriteHead h 400 [], End h (Some ''Missing room or clientId'')] st)"

text \<open>The interval callback of the stream \<open>h\<close>, while the interval is not cleared.\<close>

definition heartbeat :: "handle \<Rightarrow> state \<Rightarrow> state" where
  "heartbeat h st =
     (if h \<in> set (heartbeats st) then emit [Write h ('': ping'' @ [CHR 0x0A, CHR 0x0A])] st
      else st)"

text \<open>
  The \<^verbatim>\<open>close\<close> listener that \<^verbatim>\<open>handleEventStream\<close> registers for the stream \<open>h\<close>, with
  the \<open>roomId\<close> and \<open>clientId\<close> it captured.
\<close>

definition onClose :: "handle \<Rightarrow> string \<Rightarrow> string \<Rightarrow> state \<Rightarrow> state" where
  "onClose h roomId clientId st =
     (let st0 = st\<lparr>heartbeats := removeAll h (heartbeats st)\<rparr>
      in case map_get (rooms st0) roomId of
           None \<Rightarrow> st0
         | Some currentRoom \<Rightarrow>
             (case map_get (clients currentRoom) clientId of
                None \<Rightarrow> st0
              | Some entry \<Rightarrow>
                  (let r' = currentRoom\<lparr>clients := map_delete clientId (clients currentRoom)\<rparr>;
                       st1 = st0\<lparr>rooms := map_set roomId r' (rooms st0)\<rparr>
                   in if length (clients r') = 0
                      then st1\<lparr>rooms := map_delete roomId (rooms st1)\<rparr>
                      else broadcast roomId clientId ''peer-left''
                             (JObj [(''clientId'', JStr clientId)]) st1)))"

section \<open>The serverless join handler (api/join.js)\<close>

text \<open>
  \<open>parse\<close> is \<^verbatim>\<open>JSON.parse\<close> (\<open>None\<close> when it throws); \<open>body\<close> is \<^verbatim>\<open>req.body\<close>, \<open>None\<close>
  when undefined. This handler has no \<^verbatim>\<open>catch\<close>: a TypeError leaves it, which can only
  happen before the registry is touched.
\<close>

datatype error = TypeError

definition normalizeBody :: "(string \<Rightarrow> json option) \<Rightarrow> json option \<Rightarrow> json" where
  "normalizeBody parse body =
     (case body of
        None \<Rightarrow> JObj []
      | Some v \<Rightarrow>
          if \<not> truthy v then JObj []
          else (case v of
                  JStr s \<Rightarrow> (case parse s of Some p \<Rightarrow> p | None \<Rightarrow> JObj [])
                | _ \<Rightarrow> v))"

definition handler ::
  "(string \<Rightarrow> json option) \<Rightarrow> handle \<Rightarrow> string \<Rightarrow> string \<Rightarrow> json option \<Rightarrow> state \<Rightarrow> error + state" where
  "handler parse h generated method body st =
     (if method \<noteq> ''POST'' then Inr (emit [Status h 405, End h None] st)
      else
        (let b = normalizeBody parse body
         in if b = JNull then Inl TypeError
            else
              (case roomId_of (get_prop b ''room'') of
                 None \<Rightarrow> Inl TypeError
               | Some roomId \<Rightarrow>
                   (case userName_of (get_prop b ''name'') of
                      None \<Rightarrow> Inl TypeError
                    | Some userName \<Rightarrow>
                        if roomId = [] \<or> userName = []
                        then Inr (emit [Status h 400, Json h (error_body ''Missing room or name'')] st)
                        else
                          (case getRoom roomId st of
                             (roomData, st1) \<Rightarrow>
                               (let existingPeers = map peer_entry (clients roomData);
                                    clientId = generated;
                                    roomData' = roomData\<lparr>clients :=
                                      map_set clientId \<lparr>name = userName, res = None\<rparr>
                                        (clients roomData)\<rparr>;
                                    st2 = st1\<lparr>rooms := map_set roomId roomData' (rooms st1)\<rparr>;
                                    st3 = emit [Status h 200,
                                                Json h (JObj [(''clientId'', JStr clientId),
                                                              (''room'', JStr roomId),
                                                              (''peers'', JArr existingPeers)])] st2
                                in Inr (broadcast roomId clientId ''peer-joined''
                                          (JObj [(''clientId'', JStr clientId),
                                                 (''name'', JStr userName)]) st3)))))))"

section \<open>Requests and runs\<close>

text \<open>
  What the environment can make the server do, one completed handler or callback at a
  time (the handlers do not suspend after the body has been read).
\<close>

datatype request =
    Join handle string "json option"
  | ApiJoin handle string string "json option"
  | Signal handle "json option"
  | Leave handle "json option"
  | Events handle "string option" "string option"
  | Heartbeat handle
  | Closed handle string string

fun step :: "(string \<Rightarrow> json option) \<Rightarrow> request \<Rightarrow> state \<Rightarrow> state" where
  "step parse (Join h generated body) st = handleJoin h generated body st"
| "step parse (ApiJoin h generated method body) st =
     (case handler parse h generated method body st of Inl e \<Rightarrow> st | Inr st' \<Rightarrow> st')"
| "step parse (Signal h body) st = handleSignal h body st"
| "step parse (Leave h body) st = handleLeave h body st"
| "step parse (Events h roomParam clientParam) st = handleEventStream h roomParam clientParam st"
| "step parse (Heartbeat h) st = heartbeat h st"
| "step parse (Closed h roomId clientId) st = onClose h roomId clientId st"

definition run :: "(string \<Rightarrow> json option) \<Rightarrow> request list \<Rightarrow> state \<Rightarrow> state" where
  "run parse reqs st = foldl (\<lambda>s q. step parse q s) st reqs"

section \<open>Notions used to state the properties\<close>

text \<open>The session table of a room; a room that is not registered has no sessions.\<close>

definition sessions :: "state \<Rightarrow> string \<Rightarrow> (string \<times> client) list" where
  "sessions st roomId = (case map_get (rooms st) roomId of None \<Rightarrow> [] | Some r \<Rightarrow> clients r)"

definition rooms_nonempty :: "state \<Rightarrow> bool" where
  "rooms_nonempty st = list_all (\<lambda>p. clients (snd p) \<noteq> []) (rooms st)"

text \<open>A field that is missing from the body, or is the empty string.\<close>

definition absent_or_empty :: "json option \<Rightarrow> bool" where
  "absent_or_empty v = (v = None \<or> v = Some (JStr []))"

text \<open>The status codes sent on a response object, in order.\<close>

fun status_of :: "handle \<Rightarrow> effect \<Rightarrow> nat list" where
  "status_of h (WriteHead h' code hs) = (if h' = h then [code] else [])"
| "status_of h (Status h' code) = (if h' = h then [code] else [])"
| "status_of h e = []"

definition statuses :: "handle \<Rightarrow> effect list \<Rightarrow> nat list" where
  "statuses h tr = concat (map (status_of h) tr)"

text \<open>
  A worked state: room \<open>r1\<close> with Ada (client \<open>A\<close>, stream \<open>2\<close> attached) and Grace
  (client \<open>B\<close>, joined, no stream yet).
\<close>

definition scenario :: state where
  "scenario =
     \<lparr>rooms = [(''r1'', \<lparr>clients = [(''A'', \<lparr>name = ''Ada'', res = Some 2\<rparr>),
                                      (''B'', \<lparr>name = ''Grace'', res = None\<rparr>)]\<rparr>)],
      trace = [], heartbeats = [2]\<rparr>"

definition signal_body :: "json \<Rightarrow> json \<Rightarrow> json \<Rightarrow> json \<Rightarrow> json" where
  "signal_body r f t d = JObj [(''room'', r), (''from'', f), (''target'', t), (''data'', d)]"

text \<open>
  The two ways a session is torn down: \<^verbatim>\<open>removeClient\<close>, called by the leave handler,
  and the \<^verbatim>\<open>close\<close> listener of a stream. \<open>teardowns\<close> fires a list of them, one after
  another, for the same room and client.
\<close>

datatype trigger = ExplicitLeave | StreamClosed handle

fun teardown :: "trigger \<Rightarrow> string \<Rightarrow> string \<Rightarrow> state \<Rightarrow> state" where
  "teardown ExplicitLeave roomId clientId st = removeClient roomId clientId st"
| "teardown (StreamClosed h) roomId clientId st = onClose h roomId clientId st"

definition teardowns :: "trigger list \<Rightarrow> string \<Rightarrow> string \<Rightarrow> state \<Rightarrow> state" where
  "teardowns ts roomId clientId st = foldl (\<lambda>s t. teardown t roomId clientId s) st ts"

text \<open>
  A join request is accepted when its body passes the validation of the handler;
  \<open>join_fields\<close> is the room id and the display name it is then registered under.
  \<open>join_id\<close> is the client id generated for the request and \<open>reply\<close> the way the entry
  point sends the response object \<open>v\<close> with status 200.
\<close>

definition join_fields :: "json \<Rightarrow> (string \<times> string) option" where
  "join_fields b =
     (if b = JNull then None
      else (case roomId_of (get_prop b ''room'') of
              None \<Rightarrow> None
            | Some roomId \<Rightarrow>
                (case userName_of (get_prop b ''name'') of
                   None \<Rightarrow> None
                 | Some userName \<Rightarrow>
                     if roomId = [] \<or> userName = [] then None else Some (roomId, userName))))"

fun accepted :: "(string \<Rightarrow> json option) \<Rightarrow> request \<Rightarrow> (string \<times> string) option" where
  "accepted parse (Join h g body) = (case body of None \<Rightarrow> None | Some b \<Rightarrow> join_fields b)"
| "accepted parse (ApiJoin h g method body) =
     (if method = ''POST'' then join_fields (normalizeBody parse body) else None)"
| "accepted parse q = None"

fun join_id :: "request \<Rightarrow> string" where
  "join_id (Join h g body) = g"
| "join_id (ApiJoin h g method body) = g"
| "join_id q = []"

definition join_name :: "(string \<Rightarrow> json option) \<Rightarrow> request \<Rightarrow> string" where
  "join_name parse q = (case accepted parse q of None \<Rightarrow> [] | Some (roomId, userName) \<Rightarrow> userName)"

fun reply :: "request \<Rightarrow> json \<Rightarrow> effect list" where
  "reply (Join h g body) v =
     [WriteHead h 200 [(''Content-Type'', ''application/json'')], End h (Some (JSON_stringify v))]"
| "reply (ApiJoin h g method body) v = [Status h 200, Json h v]"
| "reply q v = []"

text \<open>
  The two writes of one \<^verbatim>\<open>sendEvent\<close>, and the streams that a broadcast excluding
  \<open>ex\<close> writes to, in the order of the session table.
\<close>

definition event_frame :: "handle \<Rightarrow> string \<Rightarrow> json \<Rightarrow> effect list" where
  "event_frame h event payload =
     [Write h (''event: '' @ event @ [CHR 0x0A]),
      Write h (''data: '' @ JSON_stringify payload @ [CHR 0x0A, CHR 0x0A])]"

definition attached_except :: "string \<Rightarrow> (string \<times> client) list \<Rightarrow> handle list" where
  "attached_except ex cs =
     concat (map (\<lambda>p. if fst p = ex then [] else (case res (snd p) of None \<Rightarrow> [] | Some h \<Rightarrow> [h])) cs)"

definition join_body :: "json \<Rightarrow> json \<Rightarrow> json" where
  "join_body r n = JObj [(''room'', r), (''name'', n)]"

text \<open>A text between double quotes, for writing down what goes over the wire.\<close>

definition quoted :: "string \<Rightarrow> string" where
  "quoted s = CHR 0x22 # s @ [CHR 0x22]"

text \<open>
  What a teardown does to the stream of the session it removes: \<^verbatim>\<open>removeClient\<close> ends it
  when there is one, the \<^verbatim>\<open>close\<close> listener has nothing left to end.
\<close>

fun closing :: "trigger \<Rightarrow> client \<Rightarrow> effect list" where
  "closing ExplicitLeave c = (case res c of None \<Rightarrow> [] | Some h \<Rightarrow> [End h None])"
| "closing (StreamClosed h) c = []"

text \<open>A second worked state: room \<open>r1\<close> with Ada (stream \<open>2\<close>) and Grace (stream \<open>3\<close>).\<close>

definition streaming :: state where
  "streaming =
     \<lparr>rooms = [(''r1'', \<lparr>clients = [(''A'', \<lparr>name = ''Ada'', res = Some 2\<rparr>),
                                      (''B'', \<lparr>name = ''Grace'', res = Some 3\<rparr>)]\<rparr>)],
      trace = [], heartbeats = [2, 3]\<rparr>"

text \<open>
  For runs: the requests that tear a session down, the accepted joins into a given room,
  and the client ids of a session table with the display names stored under them.
\<close>

fun is_teardown :: "request \<Rightarrow> bool" where
  "is_teardown (Leave h body) = True"
| "is_teardown (Closed h roomId clientId) = True"
| "is_teardown q = False"

definition joins_into :: "(string \<Rightarrow> json option) \<Rightarrow> string \<Rightarrow> request \<Rightarrow> bool" where
  "joins_into parse roomId q =
     (case accepted parse q of None \<Rightarrow> False | Some (r, userName) \<Rightarrow> r = roomId)"

definition roster :: "(string \<times> client) list \<Rightarrow> (string \<times> string) list" where
  "roster cs = map (\<lambda>p. (fst p, name (snd p))) cs"

section \<open>Facts about the association lists and the trace\<close>

lemma map_get_map_set: "map_get (map_set k v m) k' = (if k' = k then Some v else map_get m k')"
  by (induction m) (auto simp: map_get_def)

lemma map_get_map_delete: "map_get (map_delete k m) k' = (if k' = k then None else map_get m k')"
  by (induction m) (auto simp: map_get_def map_delete_def)

lemma map_get_in_set: "map_get m k = Some v \<Longrightarrow> (k, v) \<in> set m"
  by (simp add: map_get_def map_of_SomeD)

lemma list_all_map_set: "list_all P m \<Longrightarrow> P (k, v) \<Longrightarrow> list_all P (map_set k v m)"
  by (induction m) auto

lemma list_all_map_delete: "list_all P m \<Longrightarrow> list_all P (map_delete k m)"
  by (induction m) (auto simp: map_delete_def)

lemma map_delete_map_set [simp]: "map_delete k (map_set k v m) = map_delete k m"
  by (induction m) (auto simp: map_delete_def)

lemma map_set_map_set [simp]: "map_set k v' (map_set k v m) = map_set k v' m"
  by (induction m) auto

lemma map_set_not_Nil [simp]: "map_set k v m \<noteq> []"
  by (cases m) auto

lemma rooms_emit [simp]: "rooms (emit es st) = rooms st"
  by (simp add: emit_def)

lemma heartbeats_emit [simp]: "heartbeats (emit es st) = heartbeats st"
  by (simp add: emit_def)

lemma trace_emit [simp]: "trace (emit es st) = trace st @ es"
  by (simp add: emit_def)

lemma rooms_sendEvent [simp]: "rooms (sendEvent h ev p st) = rooms st"
  by (simp add: sendEvent_def)

lemma rooms_json_reply [simp]: "rooms (json_reply h code v st) = rooms st"
  by (simp add: json_reply_def)

lemma rooms_fanout:
  "rooms (foldl (\<lambda>s (cid, c). if cid = ex then s
        else (case res c of None \<Rightarrow> s | Some h \<Rightarrow> sendEvent h ev p s)) st cs) = rooms st"
  by (induction cs arbitrary: st) (auto split: option.splits)

lemma rooms_broadcast [simp]: "rooms (broadcast roomId ex ev p st) = rooms st"
  by (simp add: broadcast_def rooms_fanout split: option.splits)

lemma rooms_handleSignal [simp]: "rooms (handleSignal h body st) = rooms st"
  unfolding handleSignal_def
  by (auto split: option.splits)

section \<open>No registered room is empty\<close>

lemma rooms_nonempty_cong: "rooms st' = rooms st \<Longrightarrow> rooms_nonempty st' = rooms_nonempty st"
  by (simp add: rooms_nonempty_def)

lemma rooms_nonempty_init: "rooms_nonempty init"
  by (simp add: rooms_nonempty_def init_def)

lemma rooms_nonempty_removeClient:
  "rooms_nonempty st \<Longrightarrow> rooms_nonempty (removeClient roomId clientId st)"
  unfolding removeClient_def rooms_nonempty_def
  by (auto simp: Let_def list_all_map_set list_all_map_delete split: option.splits)

lemma rooms_nonempty_onClose:
  "rooms_nonempty st \<Longrightarrow> rooms_nonempty (onClose h roomId clientId st)"
  unfolding onClose_def rooms_nonempty_def
  by (auto simp: Let_def list_all_map_set list_all_map_delete split: option.splits)

lemma rooms_nonempty_handleJoin:
  "rooms_nonempty st \<Longrightarrow> rooms_nonempty (handleJoin h g body st)"
  unfolding handleJoin_def rooms_nonempty_def getRoom_def
  by (auto simp: Let_def list_all_map_set split: option.splits)

lemma rooms_nonempty_handler:
  "rooms_nonempty st \<Longrightarrow> handler parse h g m body st = Inr st' \<Longrightarrow> rooms_nonempty st'"
  unfolding handler_def rooms_nonempty_def getRoom_def
  by (auto simp: Let_def list_all_map_set split: option.splits if_splits)

lemma rooms_nonempty_handleLeave:
  "rooms_nonempty st \<Longrightarrow> rooms_nonempty (handleLeave h body st)"
  unfolding handleLeave_def
  by (auto simp: rooms_nonempty_removeClient rooms_nonempty_cong [of "emit es s" s for es s]
      rooms_nonempty_cong [of "json_reply a b c s" s for a b c s] split: option.splits)

lemma rooms_nonempty_handleEventStream:
  "rooms_nonempty st \<Longrightarrow> rooms_nonempty (handleEventStream h rp cp st)"
  unfolding handleEventStream_def rooms_nonempty_def
  by (auto simp: Let_def list_all_map_set split: option.splits)

lemma rooms_nonempty_step: "rooms_nonempty st \<Longrightarrow> rooms_nonempty (step parse q st)"
  by (cases q)
    (auto simp: rooms_nonempty_handleJoin rooms_nonempty_handleLeave
      rooms_nonempty_handleEventStream rooms_nonempty_onClose heartbeat_def
      rooms_nonempty_cong [of "emit es s" s for es s]
      rooms_nonempty_cong [of "handleSignal a b s" s for a b s]
      dest: rooms_nonempty_handler split: sum.splits)

lemma rooms_nonempty_run: "rooms_nonempty st \<Longrightarrow> rooms_nonempty (run parse reqs st)"
  unfolding run_def
  by (induction reqs arbitrary: st) (auto simp: rooms_nonempty_step)

text \<open>
  C4. After any sequence of completed operations on the empty registry (joins through
  either entry point, signals, leaves, stream opens, keep-alive ticks and stream closes,
  in any order and with any arguments), a room id is a key of the registry exactly when
  its session table is not empty: no operation leaves an empty room registered, whether
  the last session went by an explicit leave or by a closed stream.
\<close>

theorem room_registered_iff_sessions:
  "(map_get (rooms (run parse reqs init)) roomId \<noteq> None) =
   (sessions (run parse reqs init) roomId \<noteq> [])"
proof -
  have inv: "rooms_nonempty (run parse reqs init)"
    by (rule rooms_nonempty_run [OF rooms_nonempty_init])
  show ?thesis
  proof (cases "map_get (rooms (run parse reqs init)) roomId")
    case None
    then show ?thesis by (simp add: sessions_def)
  next
    case (Some r)
    then have "(roomId, r) \<in> set (rooms (run parse reqs init))"
      by (rule map_get_in_set)
    with inv have "clients r \<noteq> []"
      by (auto simp: rooms_nonempty_def list_all_iff)
    with Some show ?thesis by (simp add: sessions_def)
  qed
qed

section \<open>The signal relay\<close>

lemma get_prop_signal_body [simp]:
  "get_prop (signal_body r f t d) ''room'' = Some r"
  "get_prop (signal_body r f t d) ''from'' = Some f"
  "get_prop (signal_body r f t d) ''target'' = Some t"
  "get_prop (signal_body r f t d) ''data'' = Some d"
  by (simp_all add: signal_body_def)

lemma signal_body_not_null [simp]: "signal_body r f t d \<noteq> JNull"
  by (simp add: signal_body_def)

lemma scenario_r1:
  "map_get (rooms scenario) ''r1'' =
     Some \<lparr>clients = [(''A'', \<lparr>name = ''Ada'', res = Some 2\<rparr>),
                       (''B'', \<lparr>name = ''Grace'', res = None\<rparr>)]\<rparr>"
  by (simp add: scenario_def map_get_def)

lemma scenario_trace: "trace scenario = []"
  by (simp add: scenario_def)

lemma stringify_examples:
  "JSON_stringify (JObj [(''from'', JStr ''B''), (''data'', JObj [(''type'', JStr ''offer'')])]) =
     ''{'' @ quoted ''from'' @ '':'' @ quoted ''B'' @ '','' @ quoted ''data'' @ '':{''
       @ quoted ''type'' @ '':'' @ quoted ''offer'' @ ''}}''"
  "JSON_stringify (JObj [(''from'', JStr ''nobody''), (''data'', JObj [(''type'', JStr ''offer'')])]) =
     ''{'' @ quoted ''from'' @ '':'' @ quoted ''nobody'' @ '','' @ quoted ''data'' @ '':{''
       @ quoted ''type'' @ '':'' @ quoted ''offer'' @ ''}}''"
  "JSON_stringify (JObj [(''from'', JStr ''B''), (''data'', JNum ''Infinity'')]) =
     ''{'' @ quoted ''from'' @ '':'' @ quoted ''B'' @ '','' @ quoted ''data'' @ '':null}''"
  "JSON_stringify (JObj [(''from'', JStr ''B''), (''data'', JArr [JNum ''Infinity''])]) =
     ''{'' @ quoted ''from'' @ '':'' @ quoted ''B'' @ '','' @ quoted ''data'' @ '':[null]}''"
  "JSON_stringify (JObj [(''from'', JStr ''B''), (''data'', JArr [JNull])]) =
     ''{'' @ quoted ''from'' @ '':'' @ quoted ''B'' @ '','' @ quoted ''data'' @ '':[null]}''"
  "JSON_stringify (JObj [(''from'', JNum ''Infinity''), (''data'', JObj [(''type'', JStr ''offer'')])]) =
     ''{'' @ quoted ''from'' @ '':null,'' @ quoted ''data'' @ '':{''
       @ quoted ''type'' @ '':'' @ quoted ''offer'' @ ''}}''"
  "JSON_stringify (JObj [(''error'', JStr ''Recipient unavailable'')]) =
     ''{'' @ quoted ''error'' @ '':'' @ quoted ''Recipient unavailable'' @ ''}''"
  "JSON_stringify (JObj [(''error'', JStr ''Room not found'')]) =
     ''{'' @ quoted ''error'' @ '':'' @ quoted ''Room not found'' @ ''}''"
  "JSON_stringify (JObj [(''clientId'', JStr ''B'')]) =
     ''{'' @ quoted ''clientId'' @ '':'' @ quoted ''B'' @ ''}''"
  by (simp_all add: quote_def quoted_def escape_char_def)

text \<open>
  C2 as stated fails. The frame holds what \<^verbatim>\<open>JSON.stringify\<close> writes for the parsed
  values, so a payload is not always delivered unmodified: the number that the literal
  \<^verbatim>\<open>1e400\<close> parses to is truthy and is written as \<^verbatim>\<open>null\<close>, and the two different
  payloads \<^verbatim>\<open>[1e400]\<close> and \<^verbatim>\<open>[null]\<close> give the same frame.
\<close>

theorem signal_delivery_counterexample:
  "truthy (JNum ''Infinity'')
   \<and> trace (handleSignal 9
         (Some (signal_body (JStr ''r1'') (JStr ''B'') (JStr ''A'') (JNum ''Infinity''))) scenario) =
       [Write 2 (''event: signal'' @ [CHR 0x0A]),
        Write 2 (''data: {'' @ quoted ''from'' @ '':'' @ quoted ''B'' @ '','' @ quoted ''data''
                   @ '':null}'' @ [CHR 0x0A, CHR 0x0A]),
        WriteHead 9 204 [], End 9 None]
   \<and> JArr [JNum ''Infinity''] \<noteq> JArr [JNull]
   \<and> trace (handleSignal 9
         (Some (signal_body (JStr ''r1'') (JStr ''B'') (JStr ''A'') (JArr [JNum ''Infinity''])))
         scenario) =
       trace (handleSignal 9
         (Some (signal_body (JStr ''r1'') (JStr ''B'') (JStr ''A'') (JArr [JNull]))) scenario)"
  by (simp add: handleSignal_def scenario_def map_get_def sendEvent_def emit_def
      stringify_examples del: JSON_stringify.simps)

text \<open>
  C2, amended. A signal whose four fields are truthy, whose room is registered and whose
  target is a session of that room: when the target has no stream, the only effect is the
  409 reply "Recipient unavailable" and nothing is written to any stream; when the target
  has a stream, exactly one \<open>signal\<close> frame (its two writes) goes to that stream, its
  data line being \<^verbatim>\<open>JSON.stringify\<close> of the object that holds the \<open>from\<close> and \<open>data\<close>
  values as parsed from the request, followed by the 204 reply without body. The handler
  changes neither value; the serialisation writes a number that is not finite as
  \<^verbatim>\<open>null\<close>. The registry is unchanged in both cases.
\<close>

theorem signal_delivery:
  assumes "get_prop b ''room'' = Some room" and "get_prop b ''from'' = Some from"
    and "get_prop b ''target'' = Some target" and "get_prop b ''data'' = Some data"
    and "truthy room" and "truthy from" and "truthy target" and "truthy data"
    and "String_js room = Some roomId" and "map_get (rooms st) roomId = Some roomData"
    and "String_js target = Some targetId"
    and "map_get (clients roomData) targetId = Some recipient"
  shows "handleSignal h (Some b) st =
     (case res recipient of
        None \<Rightarrow>
          st\<lparr>trace := trace st @
            [WriteHead h 409 [(''Content-Type'', ''application/json'')],
             End h (Some (JSON_stringify (JObj [(''error'', JStr ''Recipient unavailable'')])))]\<rparr>
      | Some stream \<Rightarrow>
          st\<lparr>trace := trace st @
            [Write stream (''event: signal'' @ [CHR 0x0A]),
             Write stream (''data: '' @ JSON_stringify (JObj [(''from'', from), (''data'', data)])
                            @ [CHR 0x0A, CHR 0x0A]),
             WriteHead h 204 [], End h None]\<rparr>)"
proof -
  from assms(1) have "b \<noteq> JNull" by auto
  with assms show ?thesis
    by (simp add: handleSignal_def json_reply_def error_body_def sendEvent_def emit_def
        split: option.splits del: JSON_stringify.simps)
qed

theorem signal_delivery_witness:
  "handleSignal 9 (Some (signal_body (JStr ''r1'') (JStr ''B'') (JStr ''A'')
       (JObj [(''type'', JStr ''offer'')]))) scenario =
     scenario\<lparr>trace :=
       [Write 2 (''event: signal'' @ [CHR 0x0A]),
        Write 2 (''data: {'' @ quoted ''from'' @ '':'' @ quoted ''B'' @ '','' @ quoted ''data''
                   @ '':{'' @ quoted ''type'' @ '':'' @ quoted ''offer'' @ ''}}''
                   @ [CHR 0x0A, CHR 0x0A]),
        WriteHead 9 204 [], End 9 None]\<rparr>
   \<and> handleSignal 9 (Some (signal_body (JStr ''r1'') (JStr ''A'') (JStr ''B'')
       (JObj [(''type'', JStr ''offer'')]))) scenario =
     scenario\<lparr>trace :=
       [WriteHead 9 409 [(''Content-Type'', ''application/json'')],
        End 9 (Some (''{'' @ quoted ''error'' @ '':'' @ quoted ''Recipient unavailable''
                       @ ''}''))]\<rparr>"
proof -
  have a: "map_get [(''A'', \<lparr>name = ''Ada'', res = Some 2\<rparr>),
                    (''B'', \<lparr>name = ''Grace'', res = None\<rparr>)] ''A'' = Some \<lparr>name = ''Ada'', res = Some 2\<rparr>"
    by (simp add: map_get_def)
  have b: "map_get [(''A'', \<lparr>name = ''Ada'', res = Some (2::nat)\<rparr>),
                    (''B'', \<lparr>name = ''Grace'', res = None\<rparr>)] ''B'' = Some \<lparr>name = ''Grace'', res = None\<rparr>"
    by (simp add: map_get_def)
  show ?thesis
    using signal_delivery [of "signal_body (JStr ''r1'') (JStr ''B'') (JStr ''A'')
          (JObj [(''type'', JStr ''offer'')])" "JStr ''r1''" "JStr ''B''" "JStr ''A''"
          "JObj [(''type'', JStr ''offer'')]" "''r1''" scenario _ "''A''" _ 9,
          OF _ _ _ _ _ _ _ _ _ scenario_r1]
      signal_delivery [of "signal_body (JStr ''r1'') (JStr ''A'') (JStr ''B'')
          (JObj [(''type'', JStr ''offer'')])" "JStr ''r1''" "JStr ''A''" "JStr ''B''"
          "JObj [(''type'', JStr ''offer'')]" "''r1''" scenario _ "''B''" _ 9,
          OF _ _ _ _ _ _ _ _ _ scenario_r1]
    by (simp add: a b scenario_trace stringify_examples del: JSON_stringify.simps)
qed

text \<open>
  C1 as stated fails. In the worked state the room \<open>r1\<close> is registered and \<open>Z\<close> is
  not one of its sessions, yet the reply to a signal addressed to \<open>Z\<close> carries status
  409, not 404.
\<close>

theorem signal_unknown_target_counterexample:
  "map_get (rooms scenario) ''r1'' \<noteq> None
   \<and> map_get (sessions scenario ''r1'') ''Z'' = None
   \<and> statuses 9 (trace (handleSignal 9
         (Some (signal_body (JStr ''r1'') (JStr ''A'') (JStr ''Z'') (JStr ''x''))) scenario)) = [409]
   \<and> statuses 9 (trace (handleSignal 9
         (Some (signal_body (JStr ''r1'') (JStr ''A'') (JStr ''Z'') (JStr ''x''))) scenario)) \<noteq> [404]"
  by (simp add: handleSignal_def scenario_def signal_body_def map_get_def sessions_def
      json_reply_def emit_def statuses_def)

lemma drop_trace_emit [simp]: "drop (length (trace st)) (trace (emit es st)) = es"
  by (simp add: emit_def)

lemma handleSignal_404_only_without_room:
  assumes "404 \<in> set (statuses h (drop (length (trace st)) (trace (handleSignal h body st))))"
  shows "\<exists>b room roomId. body = Some b \<and> get_prop b ''room'' = Some room
           \<and> String_js room = Some roomId \<and> map_get (rooms st) roomId = None"
  using assms unfolding handleSignal_def json_reply_def sendEvent_def
  by (auto simp: statuses_def emit_def split: option.splits if_splits)

text \<open>
  C1, amended. For a signal whose four fields are truthy and whose room and target
  convert to strings: when the room is registered and the target is not a key of its
  session table, the only effect is the 409 reply "Recipient unavailable"; that is the
  very reply given when the target is in the table without a stream; and whatever the
  request and the state, a reply of the signal handler carries status 404 only when the
  room of the request is not in the registry.
\<close>

theorem signal_unknown_target:
  assumes "get_prop b ''room'' = Some room" and "get_prop b ''from'' = Some from"
    and "get_prop b ''target'' = Some target" and "get_prop b ''data'' = Some data"
    and "truthy room" and "truthy from" and "truthy target" and "truthy data"
    and "String_js room = Some roomId" and "String_js target = Some targetId"
  shows "(map_get (rooms st) roomId = Some roomData \<longrightarrow>
          map_get (clients roomData) targetId = None \<longrightarrow>
            handleSignal h (Some b) st =
              st\<lparr>trace := trace st @
                [WriteHead h 409 [(''Content-Type'', ''application/json'')],
                 End h (Some (JSON_stringify (JObj [(''error'', JStr ''Recipient unavailable'')])))]\<rparr>)
       \<and> (map_get (rooms st') roomId = Some roomData' \<longrightarrow>
          map_get (clients roomData') targetId = Some c \<longrightarrow> res c = None \<longrightarrow>
            handleSignal h (Some b) st' =
              st'\<lparr>trace := trace st' @
                [WriteHead h 409 [(''Content-Type'', ''application/json'')],
                 End h (Some (JSON_stringify (JObj [(''error'', JStr ''Recipient unavailable'')])))]\<rparr>)
       \<and> (404 \<in> set (statuses h' (drop (length (trace st'')) (trace (handleSignal h' body st'')))) \<longrightarrow>
            (\<exists>b' room' roomId'. body = Some b' \<and> get_prop b' ''room'' = Some room'
               \<and> String_js room' = Some roomId' \<and> map_get (rooms st'') roomId' = None))"
proof (intro conjI impI)
  from assms(1) have nn: "b \<noteq> JNull" by auto
  {
    assume "map_get (rooms st) roomId = Some roomData"
      and "map_get (clients roomData) targetId = None"
    with assms nn show "handleSignal h (Some b) st =
        st\<lparr>trace := trace st @
          [WriteHead h 409 [(''Content-Type'', ''application/json'')],
           End h (Some (JSON_stringify (JObj [(''error'', JStr ''Recipient unavailable'')])))]\<rparr>"
      by (simp add: handleSignal_def json_reply_def error_body_def emit_def
          del: JSON_stringify.simps)
  }
  {
    assume "map_get (rooms st') roomId = Some roomData'"
      and "map_get (clients roomData') targetId = Some c" and "res c = None"
    with assms nn show "handleSignal h (Some b) st' =
        st'\<lparr>trace := trace st' @
          [WriteHead h 409 [(''Content-Type'', ''application/json'')],
           End h (Some (JSON_stringify (JObj [(''error'', JStr ''Recipient unavailable'')])))]\<rparr>"
      by (simp add: handleSignal_def json_reply_def error_body_def emit_def
          del: JSON_stringify.simps)
  }
  {
    assume "404 \<in> set (statuses h' (drop (length (trace st'')) (trace (handleSignal h' body st''))))"
    then show "\<exists>b' room' roomId'. body = Some b' \<and> get_prop b' ''room'' = Some room'
        \<and> String_js room' = Some roomId' \<and> map_get (rooms st'') roomId' = None"
      by (rule handleSignal_404_only_without_room)
  }
qed

theorem signal_unknown_target_witness:
  "handleSignal 9 (Some (signal_body (JStr ''r1'') (JStr ''A'') (JStr ''Z'') (JStr ''x''))) scenario =
     scenario\<lparr>trace :=
       [WriteHead 9 409 [(''Content-Type'', ''application/json'')],
        End 9 (Some (''{'' @ quoted ''error'' @ '':'' @ quoted ''Recipient unavailable''
                       @ ''}''))]\<rparr>
   \<and> handleSignal 9 (Some (signal_body (JStr ''r1'') (JStr ''A'') (JStr ''Z'') (JStr ''x'')))
       \<lparr>rooms = [(''r1'', \<lparr>clients = [(''Z'', \<lparr>name = ''Zoe'', res = None\<rparr>)]\<rparr>)],
        trace = [], heartbeats = []\<rparr> =
     \<lparr>rooms = [(''r1'', \<lparr>clients = [(''Z'', \<lparr>name = ''Zoe'', res = None\<rparr>)]\<rparr>)],
      trace =
       [WriteHead 9 409 [(''Content-Type'', ''application/json'')],
        End 9 (Some (''{'' @ quoted ''error'' @ '':'' @ quoted ''Recipient unavailable''
                       @ ''}''))],
      heartbeats = []\<rparr>
   \<and> statuses 9 (trace (handleSignal 9
         (Some (signal_body (JStr ''r9'') (JStr ''A'') (JStr ''Z'') (JStr ''x''))) scenario)) = [404]
   \<and> (\<exists>b' room' roomId'.
         Some (signal_body (JStr ''r9'') (JStr ''A'') (JStr ''Z'') (JStr ''x'')) = Some b'
         \<and> get_prop b' ''room'' = Some room' \<and> String_js room' = Some roomId'
         \<and> map_get (rooms scenario) roomId' = None)"
proof -
  let ?b = "signal_body (JStr ''r1'') (JStr ''A'') (JStr ''Z'') (JStr ''x'')"
  let ?zs = "\<lparr>rooms = [(''r1'', \<lparr>clients = [(''Z'', \<lparr>name = ''Zoe'', res = None\<rparr>)]\<rparr>)],
        trace = [], heartbeats = []\<rparr>"
  have absent: "map_get (clients \<lparr>clients = [(''A'', \<lparr>name = ''Ada'', res = Some 2\<rparr>),
      (''B'', \<lparr>name = ''Grace'', res = None\<rparr>)]\<rparr>) ''Z'' = None"
    by (simp add: map_get_def)
  have r: "map_get (rooms ?zs) ''r1'' =
      Some \<lparr>clients = [(''Z'', \<lparr>name = ''Zoe'', res = None\<rparr>)]\<rparr>"
    by (simp add: map_get_def)
  have z: "map_get (clients \<lparr>clients = [(''Z'', \<lparr>name = ''Zoe'', res = None :: handle option\<rparr>)]\<rparr>)
      ''Z'' = Some \<lparr>name = ''Zoe'', res = None\<rparr>"
    by (simp add: map_get_def)
  have s: "statuses 9 (drop (length (trace scenario)) (trace (handleSignal 9
         (Some (signal_body (JStr ''r9'') (JStr ''A'') (JStr ''Z'') (JStr ''x''))) scenario))) = [404]"
    by (simp add: handleSignal_def scenario_def map_get_def json_reply_def emit_def statuses_def
        del: JSON_stringify.simps)
  note inst = signal_unknown_target [where b = ?b and room = "JStr ''r1''" and ?from = "JStr ''A''"
      and target = "JStr ''Z''" and data = "JStr ''x''" and roomId = "''r1''" and targetId = "''Z''"
      and st = scenario and h = 9 and st' = ?zs and c = "\<lparr>name = ''Zoe'', res = None\<rparr>"
      and h' = 9 and st'' = scenario
      and body = "Some (signal_body (JStr ''r9'') (JStr ''A'') (JStr ''Z'') (JStr ''x''))"
      and roomData = "\<lparr>clients = [(''A'', \<lparr>name = ''Ada'', res = Some 2\<rparr>),
        (''B'', \<lparr>name = ''Grace'', res = None\<rparr>)]\<rparr>"
      and roomData' = "\<lparr>clients = [(''Z'', \<lparr>name = ''Zoe'', res = None\<rparr>)]\<rparr>"]
  from inst scenario_r1 absent r z s scenario_trace show ?thesis
    by (simp add: stringify_examples del: JSON_stringify.simps)
qed

lemma handleSignal_falsy:
  assumes "b \<noteq> JNull"
    and "\<exists>k \<in> {''room'', ''from'', ''target'', ''data''}.
           case get_prop b k of None \<Rightarrow> True | Some v \<Rightarrow> \<not> truthy v"
  shows "handleSignal h (Some b) st = json_reply h 400 (error_body ''Missing required fields'') st"
  using assms by (auto simp: handleSignal_def split: option.splits)

text \<open>
  C7. If one of \<open>room\<close>, \<open>from\<close>, \<open>target\<close>, \<open>data\<close> is missing from the body or is
  the empty string, the handler replies 400 and does nothing else: the registry is as
  before and nothing is written to a stream. (The message is "Missing required fields",
  except for the body \<^verbatim>\<open>null\<close>, whose destructuring throws and yields "Invalid JSON body".)
\<close>

theorem signal_missing_field:
  assumes "absent_or_empty (get_prop b ''room'') \<or> absent_or_empty (get_prop b ''from'')
         \<or> absent_or_empty (get_prop b ''target'') \<or> absent_or_empty (get_prop b ''data'')"
  shows "handleSignal h (Some b) st =
     st\<lparr>trace := trace st @
       [WriteHead h 400 [(''Content-Type'', ''application/json'')],
        End h (Some (JSON_stringify (JObj [(''error'',
          JStr (if b = JNull then ''Invalid JSON body'' else ''Missing required fields''))])))]\<rparr>"
proof (cases "b = JNull")
  case True
  then show ?thesis
    by (simp add: handleSignal_def json_reply_def error_body_def emit_def)
next
  case False
  from assms have "\<exists>k \<in> {''room'', ''from'', ''target'', ''data''}.
      case get_prop b k of None \<Rightarrow> True | Some v \<Rightarrow> \<not> truthy v"
    by (auto simp: absent_or_empty_def)
  with False have "handleSignal h (Some b) st =
      json_reply h 400 (error_body ''Missing required fields'') st"
    by (rule handleSignal_falsy)
  with False show ?thesis
    by (simp add: json_reply_def error_body_def emit_def)
qed

theorem signal_missing_field_witness:
  "absent_or_empty (get_prop (signal_body (JStr ''r1'') (JStr ''B'') (JStr ''A'') (JStr [])) ''data'')
   \<and> absent_or_empty (get_prop (JObj [(''room'', JStr ''r1''), (''from'', JStr ''B''),
        (''data'', JStr ''x'')]) ''target'')
   \<and> handleSignal 9 (Some (signal_body (JStr ''r1'') (JStr ''B'') (JStr ''A'') (JStr []))) scenario =
     scenario\<lparr>trace :=
       [WriteHead 9 400 [(''Content-Type'', ''application/json'')],
        End 9 (Some (JSON_stringify (JObj [(''error'', JStr ''Missing required fields'')])))]\<rparr>
   \<and> handleSignal 9 (Some (JObj [(''room'', JStr ''r1''), (''from'', JStr ''B''),
        (''data'', JStr ''x'')])) scenario =
     scenario\<lparr>trace :=
       [WriteHead 9 400 [(''Content-Type'', ''application/json'')],
        End 9 (Some (JSON_stringify (JObj [(''error'', JStr ''Missing required fields'')])))]\<rparr>"
  using signal_missing_field [of "signal_body (JStr ''r1'') (JStr ''B'') (JStr ''A'') (JStr [])"
      9 scenario]
    signal_missing_field [of "JObj [(''room'', JStr ''r1''), (''from'', JStr ''B''),
        (''data'', JStr ''x'')]" 9 scenario]
  by (simp add: absent_or_empty_def scenario_trace signal_body_def)

text \<open>
  The guard is JavaScript truthiness: \<^verbatim>\<open>null\<close>, \<^verbatim>\<open>false\<close> and \<open>0\<close> are rejected like the
  empty string, while an empty object is truthy and is relayed.
\<close>

lemma signal_falsy_and_truthy_data:
  "statuses 9 (trace (handleSignal 9
      (Some (signal_body (JStr ''r1'') (JStr ''B'') (JStr ''A'') (JNum ''0''))) scenario)) = [400]"
  "statuses 9 (trace (handleSignal 9
      (Some (signal_body (JStr ''r1'') (JStr ''B'') (JStr ''A'') JNull)) scenario)) = [400]"
  "statuses 9 (trace (handleSignal 9
      (Some (signal_body (JStr ''r1'') (JStr ''B'') (JStr ''A'') (JObj []))) scenario)) = [204]"
  by (simp_all add: handleSignal_def scenario_def signal_body_def map_get_def json_reply_def
      sendEvent_def emit_def statuses_def del: JSON_stringify.simps)

text \<open>
  C10 as stated fails on the word verbatim: a sender given as the literal \<^verbatim>\<open>1e400\<close> is
  truthy, the signal is delivered, and the frame holds \<^verbatim>\<open>null\<close> in its place.
\<close>

theorem signal_sender_not_validated_counterexample:
  "truthy (JNum ''Infinity'')
   \<and> trace (handleSignal 9
         (Some (signal_body (JStr ''r1'') (JNum ''Infinity'') (JStr ''A'')
            (JObj [(''type'', JStr ''offer'')]))) scenario) =
       [Write 2 (''event: signal'' @ [CHR 0x0A]),
        Write 2 (''data: {'' @ quoted ''from'' @ '':null,'' @ quoted ''data'' @ '':{''
                   @ quoted ''type'' @ '':'' @ quoted ''offer'' @ ''}}'' @ [CHR 0x0A, CHR 0x0A]),
        WriteHead 9 204 [], End 9 None]"
  by (simp add: handleSignal_def scenario_def map_get_def sendEvent_def emit_def
      stringify_examples del: JSON_stringify.simps)

text \<open>
  C10, amended. For a signal whose room is registered and whose target has a stream, the
  frame written to the target holds the \<open>from\<close> value of the request as
  \<^verbatim>\<open>JSON.stringify\<close> writes it (a number that is not finite as \<^verbatim>\<open>null\<close>) and the reply is
  204, for every truthy \<open>from\<close>: no hypothesis relates \<open>from\<close> to any session, so the
  delivery depends on the target only.
\<close>

theorem signal_sender_not_validated:
  assumes "get_prop b ''room'' = Some room" and "get_prop b ''from'' = Some from"
    and "get_prop b ''target'' = Some target" and "get_prop b ''data'' = Some data"
    and "truthy room" and "truthy from" and "truthy target" and "truthy data"
    and "String_js room = Some roomId" and "map_get (rooms st) roomId = Some roomData"
    and "String_js target = Some targetId"
    and "map_get (clients roomData) targetId = Some recipient"
    and "res recipient = Some stream"
  shows "trace (handleSignal h (Some b) st) = trace st @
            [Write stream (''event: signal'' @ [CHR 0x0A]),
             Write stream (''data: '' @ JSON_stringify (JObj [(''from'', from), (''data'', data)])
                            @ [CHR 0x0A, CHR 0x0A]),
             WriteHead h 204 [], End h None]"
proof -
  from assms(1) have "b \<noteq> JNull" by auto
  with assms show ?thesis
    by (simp add: handleSignal_def sendEvent_def del: JSON_stringify.simps)
qed

theorem signal_sender_not_validated_witness:
  "map fst (rooms scenario) = [''r1'']
   \<and> map_get (sessions scenario ''r1'') ''nobody'' = None
   \<and> trace (handleSignal 9 (Some (signal_body (JStr ''r1'') (JStr ''nobody'') (JStr ''A'')
       (JObj [(''type'', JStr ''offer'')]))) scenario) =
       [Write 2 (''event: signal'' @ [CHR 0x0A]),
        Write 2 (''data: {'' @ quoted ''from'' @ '':'' @ quoted ''nobody'' @ '','' @ quoted ''data''
                   @ '':{'' @ quoted ''type'' @ '':'' @ quoted ''offer'' @ ''}}''
                   @ [CHR 0x0A, CHR 0x0A]),
        WriteHead 9 204 [], End 9 None]"
proof -
  have "map fst (rooms scenario) = [''r1'']"
    by (simp add: scenario_def)
  moreover have "map_get (sessions scenario ''r1'') ''nobody'' = None"
    by (simp add: sessions_def scenario_def map_get_def)
  moreover have "map_get [(''A'', \<lparr>name = ''Ada'', res = Some (2::nat)\<rparr>),
      (''B'', \<lparr>name = ''Grace'', res = None\<rparr>)] ''A'' = Some \<lparr>name = ''Ada'', res = Some 2\<rparr>"
    by (simp add: map_get_def)
  ultimately show ?thesis
    using signal_sender_not_validated [of "signal_body (JStr ''r1'') (JStr ''nobody'') (JStr ''A'')
          (JObj [(''type'', JStr ''offer'')])" "JStr ''r1''" "JStr ''nobody''" "JStr ''A''"
          "JObj [(''type'', JStr ''offer'')]" "''r1''" scenario _ "''A''" _ 2 9,
          OF _ _ _ _ _ _ _ _ _ scenario_r1]
    by (simp add: scenario_trace stringify_examples del: JSON_stringify.simps)
qed

section \<open>Broadcasts and session teardown\<close>

lemma emit_emit: "emit es' (emit es st) = emit (es @ es') st"
  by (simp add: emit_def)

lemma emit_Nil [simp]: "emit [] st = st"
  by (simp add: emit_def)

lemma fanout_frames:
  "foldl (\<lambda>s (cid, c). if cid = ex then s
        else (case res c of None \<Rightarrow> s | Some h \<Rightarrow> sendEvent h ev p s)) st cs =
   emit (concat (map (\<lambda>h. event_frame h ev p) (attached_except ex cs))) st"
proof (induction cs arbitrary: st)
  case Nil
  then show ?case by (simp add: attached_except_def)
next
  case (Cons a cs)
  obtain cid c where a: "a = (cid, c)" by (cases a)
  show ?case
  proof (cases "cid = ex")
    case True
    with a Cons.IH [of st] show ?thesis by (simp add: attached_except_def)
  next
    case False
    show ?thesis
    proof (cases "res c")
      case None
      with a False Cons.IH [of st] show ?thesis by (simp add: attached_except_def)
    next
      case (Some h)
      with a False Cons.IH [of "sendEvent h ev p st"] show ?thesis
        by (simp add: attached_except_def sendEvent_def event_frame_def emit_emit)
    qed
  qed
qed

lemma broadcast_frames:
  "broadcast roomId ex ev p st =
   emit (concat (map (\<lambda>h. event_frame h ev p) (attached_except ex (sessions st roomId)))) st"
  by (cases "map_get (rooms st) roomId")
    (simp_all add: broadcast_def sessions_def fanout_frames attached_except_def)

lemma attached_except_map_set [simp]:
  "attached_except ex (map_set ex v cs) = attached_except ex cs"
  by (induction cs) (auto simp: attached_except_def)

lemma attached_except_Nil: "attached_except ex [] = []"
  by (simp add: attached_except_def)

lemma attached_except_Cons:
  "attached_except ex (p # cs) =
     (if fst p = ex then [] else (case res (snd p) of None \<Rightarrow> [] | Some h \<Rightarrow> [h]))
     @ attached_except ex cs"
  by (simp add: attached_except_def)

lemma sessions_cong: "rooms st' = rooms st \<Longrightarrow> sessions st' = sessions st"
  by (simp add: sessions_def fun_eq_iff)

lemma removeClient_absent:
  "map_get (sessions st roomId) clientId = None \<Longrightarrow> removeClient roomId clientId st = st"
  unfolding removeClient_def sessions_def
  by (cases "map_get (rooms st) roomId") simp_all

lemma onClose_absent:
  "map_get (sessions st roomId) clientId = None \<Longrightarrow>
   onClose h roomId clientId st = st\<lparr>heartbeats := removeAll h (heartbeats st)\<rparr>"
  unfolding onClose_def sessions_def
  by (cases "map_get (rooms st) roomId") (simp_all add: Let_def)

lemma teardown_absent:
  assumes "map_get (sessions st roomId) clientId = None"
  shows "rooms (teardown t roomId clientId st) = rooms st"
    and "trace (teardown t roomId clientId st) = trace st"
  using assms
  by (cases t, simp add: removeClient_absent, simp add: onClose_absent)+

lemma sessions_removed:
  assumes "map_get (rooms st) roomId = Some r"
    and "rooms st' = (if clients (r\<lparr>clients := map_delete clientId (clients r)\<rparr>) = []
           then map_delete roomId (map_set roomId (r\<lparr>clients := map_delete clientId (clients r)\<rparr>) (rooms st))
           else map_set roomId (r\<lparr>clients := map_delete clientId (clients r)\<rparr>) (rooms st))"
  shows "map_get (sessions st' roomId) clientId = None"
proof (cases "map_delete clientId (clients r) = []")
  case True
  with assms(2) have "map_get (rooms st') roomId = None"
    by (simp add: map_get_map_delete)
  then show ?thesis
    by (simp add: sessions_def map_get_def)
next
  case False
  with assms(2) have "map_get (rooms st') roomId =
      Some (r\<lparr>clients := map_delete clientId (clients r)\<rparr>)"
    by (simp add: map_get_map_set)
  then show ?thesis
    by (simp add: sessions_def map_get_map_delete)
qed

lemma rooms_removeClient:
  assumes "map_get (rooms st) roomId = Some r" and "map_get (clients r) clientId = Some c"
  shows "rooms (removeClient roomId clientId st) =
     (if clients (r\<lparr>clients := map_delete clientId (clients r)\<rparr>) = []
      then map_delete roomId (map_set roomId (r\<lparr>clients := map_delete clientId (clients r)\<rparr>) (rooms st))
      else map_set roomId (r\<lparr>clients := map_delete clientId (clients r)\<rparr>) (rooms st))"
  using assms unfolding removeClient_def
  by (cases "res c") (simp_all add: Let_def)

lemma rooms_onClose:
  assumes "map_get (rooms st) roomId = Some r" and "map_get (clients r) clientId = Some c"
  shows "rooms (onClose h roomId clientId st) =
     (if clients (r\<lparr>clients := map_delete clientId (clients r)\<rparr>) = []
      then map_delete roomId (map_set roomId (r\<lparr>clients := map_delete clientId (clients r)\<rparr>) (rooms st))
      else map_set roomId (r\<lparr>clients := map_delete clientId (clients r)\<rparr>) (rooms st))"
  using assms unfolding onClose_def
  by (simp add: Let_def)

lemma teardown_removes:
  "map_get (sessions (teardown t roomId clientId st) roomId) clientId = None"
proof (cases "map_get (sessions st roomId) clientId")
  case None
  then have "rooms (teardown t roomId clientId st) = rooms st"
    by (rule teardown_absent)
  then have "sessions (teardown t roomId clientId st) = sessions st"
    by (rule sessions_cong)
  with None show ?thesis by simp
next
  case (Some c)
  then obtain r where r: "map_get (rooms st) roomId = Some r"
    and c: "map_get (clients r) clientId = Some c"
    by (cases "map_get (rooms st) roomId") (simp_all add: sessions_def map_get_def)
  show ?thesis
  proof (cases t)
    case ExplicitLeave
    with sessions_removed [OF r rooms_removeClient [OF r c]] show ?thesis by simp
  next
    case (StreamClosed h)
    with sessions_removed [OF r rooms_onClose [OF r c]] show ?thesis by simp
  qed
qed

lemma teardowns_absent:
  assumes "map_get (sessions st roomId) clientId = None"
  shows "rooms (teardowns ts roomId clientId st) = rooms st
       \<and> trace (teardowns ts roomId clientId st) = trace st"
  using assms
proof (induction ts arbitrary: st)
  case Nil
  then show ?case by (simp add: teardowns_def)
next
  case (Cons t ts)
  let ?s = "teardown t roomId clientId st"
  have eq: "rooms ?s = rooms st" "trace ?s = trace st"
    using Cons.prems by (rule teardown_absent)+
  have "map_get (sessions ?s roomId) clientId = None"
    by (rule teardown_removes)
  from Cons.IH [OF this] eq show ?case
    by (simp add: teardowns_def)
qed

lemma attached_except_map_delete [simp]:
  "attached_except ex (map_delete ex cs) = attached_except ex cs"
  by (induction cs) (simp_all add: map_delete_def attached_except_Nil attached_except_Cons)

lemma room_update [simp]: "(r :: room)\<lparr>clients := cs\<rparr> = \<lparr>clients = cs\<rparr>"
  by (cases r) simp

lemma sessions_map_set [simp]:
  "sessions (st\<lparr>rooms := map_set roomId r (rooms st)\<rparr>) roomId = clients r"
  by (simp add: sessions_def map_get_map_set)

lemma peer_left_frames:
  assumes "cs \<noteq> []"
  shows "trace (broadcast roomId clientId ''peer-left'' p
           (st\<lparr>rooms := map_set roomId \<lparr>clients = map_delete clientId cs\<rparr> (rooms st)\<rparr>)) =
     trace st @ concat (map (\<lambda>s. event_frame s ''peer-left'' p) (attached_except clientId cs))"
  by (simp add: broadcast_frames del: JSON_stringify.simps)

lemma trace_removeClient:
  assumes "map_get (rooms st) roomId = Some r" and "map_get (clients r) clientId = Some c"
  shows "trace (removeClient roomId clientId st) =
     trace st @ closing ExplicitLeave c
     @ (if map_delete clientId (clients r) = [] then []
        else concat (map (\<lambda>s. event_frame s ''peer-left'' (JObj [(''clientId'', JStr clientId)]))
               (attached_except clientId (clients r))))"
proof (cases "res c")
  case None
  with assms show ?thesis
    unfolding removeClient_def
    by (simp add: Let_def peer_left_frames [where cs = "clients r", OF _] broadcast_frames
        del: JSON_stringify.simps)
next
  case (Some s)
  with assms show ?thesis
    unfolding removeClient_def
    by (simp add: Let_def broadcast_frames
        sessions_map_set [where st = "emit es st" for es, simplified]
        del: JSON_stringify.simps)
qed

lemma trace_onClose:
  assumes "map_get (rooms st) roomId = Some r" and "map_get (clients r) clientId = Some c"
  shows "trace (onClose h roomId clientId st) =
     trace st
     @ (if map_delete clientId (clients r) = [] then []
        else concat (map (\<lambda>s. event_frame s ''peer-left'' (JObj [(''clientId'', JStr clientId)]))
               (attached_except clientId (clients r))))"
  using assms unfolding onClose_def
  by (simp add: Let_def broadcast_frames
      sessions_map_set [where st = "st\<lparr>heartbeats := hs\<rparr>" for hs, simplified]
      del: JSON_stringify.simps)

lemma teardown_present:
  assumes "map_get (rooms st) roomId = Some r" and "map_get (clients r) clientId = Some c"
  shows "trace (teardown t roomId clientId st) =
       trace st @ closing t c
       @ (if map_delete clientId (clients r) = [] then []
          else concat (map (\<lambda>s. event_frame s ''peer-left'' (JObj [(''clientId'', JStr clientId)]))
                 (attached_except clientId (clients r))))"
    and "rooms (teardown t roomId clientId st) =
       (if map_delete clientId (clients r) = [] then map_delete roomId (rooms st)
        else map_set roomId \<lparr>clients = map_delete clientId (clients r)\<rparr> (rooms st))"
proof -
  show "trace (teardown t roomId clientId st) =
       trace st @ closing t c
       @ (if map_delete clientId (clients r) = [] then []
          else concat (map (\<lambda>s. event_frame s ''peer-left'' (JObj [(''clientId'', JStr clientId)]))
                 (attached_except clientId (clients r))))"
    by (cases t) (simp_all add: trace_removeClient [OF assms] trace_onClose [OF assms]
        del: JSON_stringify.simps)
  show "rooms (teardown t roomId clientId st) =
       (if map_delete clientId (clients r) = [] then map_delete roomId (rooms st)
        else map_set roomId \<lparr>clients = map_delete clientId (clients r)\<rparr> (rooms st))"
    by (cases t) (simp_all add: rooms_removeClient [OF assms] rooms_onClose [OF assms])
qed

text \<open>
  C5. Tearing a session down is idempotent. If the client is not in the session table of
  the room (never joined, already removed, or the room is gone), a teardown from either
  trigger changes neither the registry nor the trace: nothing is deleted, nothing is
  written, and the model has no error branch to take. If the client is in the table, the
  teardown removes that one entry (and the room with it when it was the last), ends the
  stream of the session when \<^verbatim>\<open>removeClient\<close> finds one, and writes one \<open>peer-left\<close>
  frame to each other session that has a stream, and nothing else. After any teardown
  the client is not in the table, so however many further triggers fire for the same room
  and client, in any order, the registry and the trace stay as the first one left them:
  the session is deleted once and \<open>peer-left\<close> is broadcast at most once.
\<close>

theorem teardown_idempotent:
  "(map_get (sessions st roomId) clientId = None \<longrightarrow>
      rooms (teardown t roomId clientId st) = rooms st
      \<and> trace (teardown t roomId clientId st) = trace st)
   \<and> (map_get (rooms st) roomId = Some r \<longrightarrow> map_get (clients r) clientId = Some c \<longrightarrow>
      trace (teardown t roomId clientId st) =
        trace st @ closing t c
        @ (if map_delete clientId (clients r) = [] then []
           else concat (map (\<lambda>s. event_frame s ''peer-left'' (JObj [(''clientId'', JStr clientId)]))
                  (attached_except clientId (clients r))))
      \<and> rooms (teardown t roomId clientId st) =
        (if map_delete clientId (clients r) = [] then map_delete roomId (rooms st)
         else map_set roomId \<lparr>clients = map_delete clientId (clients r)\<rparr> (rooms st)))
   \<and> map_get (sessions (teardown t roomId clientId st) roomId) clientId = None
   \<and> rooms (teardowns (t # ts) roomId clientId st) = rooms (teardown t roomId clientId st)
   \<and> trace (teardowns (t # ts) roomId clientId st) = trace (teardown t roomId clientId st)"
proof -
  have gone: "map_get (sessions (teardown t roomId clientId st) roomId) clientId = None"
    by (rule teardown_removes)
  have "teardowns (t # ts) roomId clientId st =
      teardowns ts roomId clientId (teardown t roomId clientId st)"
    by (simp add: teardowns_def)
  with teardowns_absent [OF gone, of ts] gone show ?thesis
    by (simp add: teardown_absent teardown_present del: JSON_stringify.simps)
qed

lemma streaming_r1:
  "map_get (rooms streaming) ''r1'' =
     Some \<lparr>clients = [(''A'', \<lparr>name = ''Ada'', res = Some 2\<rparr>),
                       (''B'', \<lparr>name = ''Grace'', res = Some 3\<rparr>)]\<rparr>"
  by (simp add: streaming_def map_get_def)

lemma scenario_sessions:
  "sessions scenario ''r1'' = [(''A'', \<lparr>name = ''Ada'', res = Some 2\<rparr>),
                                (''B'', \<lparr>name = ''Grace'', res = None\<rparr>)]"
  by (simp add: sessions_def scenario_r1)

theorem teardown_idempotent_witness:
  "map_get (sessions scenario ''r1'') ''Z'' = None
   \<and> rooms (teardown ExplicitLeave ''r1'' ''Z'' scenario) = rooms scenario
   \<and> trace (teardown ExplicitLeave ''r1'' ''Z'' scenario) = trace scenario
   \<and> rooms (teardowns [StreamClosed 3, ExplicitLeave, StreamClosed 3] ''r1'' ''B'' streaming) =
       [(''r1'', \<lparr>clients = [(''A'', \<lparr>name = ''Ada'', res = Some 2\<rparr>)]\<rparr>)]
   \<and> trace (teardowns [StreamClosed 3, ExplicitLeave, StreamClosed 3] ''r1'' ''B'' streaming) =
       [Write 2 (''event: peer-left'' @ [CHR 0x0A]),
        Write 2 (''data: {'' @ quoted ''clientId'' @ '':'' @ quoted ''B'' @ ''}''
                   @ [CHR 0x0A, CHR 0x0A])]
   \<and> trace (teardowns [ExplicitLeave, StreamClosed 3, ExplicitLeave] ''r1'' ''B'' streaming) =
       [End 3 None,
        Write 2 (''event: peer-left'' @ [CHR 0x0A]),
        Write 2 (''data: {'' @ quoted ''clientId'' @ '':'' @ quoted ''B'' @ ''}''
                   @ [CHR 0x0A, CHR 0x0A])]"
proof -
  let ?cs = "[(''A'', \<lparr>name = ''Ada'', res = Some (2::nat)\<rparr>),
              (''B'', \<lparr>name = ''Grace'', res = Some 3\<rparr>)]"
  have z: "map_get (sessions scenario ''r1'') ''Z'' = None"
    by (simp add: scenario_sessions map_get_def)
  have b: "map_get (clients \<lparr>clients = ?cs\<rparr>) ''B'' = Some \<lparr>name = ''Grace'', res = Some 3\<rparr>"
    by (simp add: map_get_def)
  have d: "map_delete ''B'' ?cs = [(''A'', \<lparr>name = ''Ada'', res = Some 2\<rparr>)]"
    by (simp add: map_delete_def)
  have a: "attached_except ''B'' ?cs = [2]"
    by (simp add: attached_except_def)
  have t: "trace streaming = []" and r: "rooms streaming = [(''r1'', \<lparr>clients = ?cs\<rparr>)]"
    by (simp_all add: streaming_def)
  note absent = teardown_idempotent [where st = scenario and roomId = "''r1''"
      and clientId = "''Z''" and t = ExplicitLeave and ts = "[]"]
  note closed = teardown_idempotent [where st = streaming and roomId = "''r1''"
      and clientId = "''B''" and t = "StreamClosed 3" and ts = "[ExplicitLeave, StreamClosed 3]"
      and r = "\<lparr>clients = ?cs\<rparr>" and c = "\<lparr>name = ''Grace'', res = Some 3\<rparr>"]
  note left = teardown_idempotent [where st = streaming and roomId = "''r1''"
      and clientId = "''B''" and t = ExplicitLeave and ts = "[StreamClosed 3, ExplicitLeave]"
      and r = "\<lparr>clients = ?cs\<rparr>" and c = "\<lparr>name = ''Grace'', res = Some 3\<rparr>"]
  from absent closed left z streaming_r1 b show ?thesis
    by (simp add: d a t r event_frame_def stringify_examples del: JSON_stringify.simps)
qed

section \<open>Joining a room\<close>

lemma join_fields_SomeD:
  assumes "join_fields b = Some (roomId, userName)"
  shows "b \<noteq> JNull" and "roomId_of (get_prop b ''room'') = Some roomId"
    and "userName_of (get_prop b ''name'') = Some userName"
    and "roomId \<noteq> []" and "userName \<noteq> []"
  using assms by (auto simp: join_fields_def split: option.splits if_splits)

lemma register_frames:
  "broadcast roomId g ev p
     (emit es (st\<lparr>rooms := map_set roomId \<lparr>clients = map_set g c cs\<rparr> (rooms st)\<rparr>)) =
   st\<lparr>rooms := map_set roomId \<lparr>clients = map_set g c cs\<rparr> (rooms st),
      trace := trace st @ es @ concat (map (\<lambda>h. event_frame h ev p) (attached_except g cs))\<rparr>"
  by (simp add: broadcast_frames sessions_def map_get_map_set emit_def)

lemma handleJoin_accepted:
  assumes "join_fields b = Some (roomId, userName)"
  shows "handleJoin h g (Some b) st =
     st\<lparr>rooms := map_set roomId
            \<lparr>clients = map_set g \<lparr>name = userName, res = None\<rparr> (sessions st roomId)\<rparr> (rooms st),
        trace := trace st
          @ [WriteHead h 200 [(''Content-Type'', ''application/json'')],
             End h (Some (JSON_stringify (JObj [(''clientId'', JStr g), (''room'', JStr roomId),
                    (''peers'', JArr (map peer_entry (sessions st roomId)))])))]
          @ concat (map (\<lambda>s. event_frame s ''peer-joined''
                           (JObj [(''clientId'', JStr g), (''name'', JStr userName)]))
                     (attached_except g (sessions st roomId)))\<rparr>"
proof (cases "map_get (rooms st) roomId")
  case None
  with join_fields_SomeD [OF assms] show ?thesis
    unfolding handleJoin_def getRoom_def json_reply_def
    by (simp add: Let_def sessions_def register_frames [where cs = "[]", simplified]
        attached_except_def del: JSON_stringify.simps)
next
  case (Some r)
  with join_fields_SomeD [OF assms] show ?thesis
    unfolding handleJoin_def getRoom_def json_reply_def
    by (simp add: Let_def sessions_def register_frames del: JSON_stringify.simps)
qed

lemma handler_accepted:
  assumes "join_fields (normalizeBody parse body) = Some (roomId, userName)"
  shows "handler parse h g ''POST'' body st = Inr
     (st\<lparr>rooms := map_set roomId
            \<lparr>clients = map_set g \<lparr>name = userName, res = None\<rparr> (sessions st roomId)\<rparr> (rooms st),
        trace := trace st
          @ [Status h 200,
             Json h (JObj [(''clientId'', JStr g), (''room'', JStr roomId),
                    (''peers'', JArr (map peer_entry (sessions st roomId)))])]
          @ concat (map (\<lambda>s. event_frame s ''peer-joined''
                           (JObj [(''clientId'', JStr g), (''name'', JStr userName)]))
                     (attached_except g (sessions st roomId)))\<rparr>)"
proof (cases "map_get (rooms st) roomId")
  case None
  with join_fields_SomeD [OF assms] show ?thesis
    unfolding handler_def getRoom_def
    by (simp add: Let_def sessions_def register_frames [where cs = "[]", simplified]
        attached_except_def del: JSON_stringify.simps)
next
  case (Some r)
  with join_fields_SomeD [OF assms] show ?thesis
    unfolding handler_def getRoom_def
    by (simp add: Let_def sessions_def register_frames del: JSON_stringify.simps)
qed

lemma step_accepted:
  assumes "accepted parse q = Some (roomId, userName)"
  shows "step parse q st =
     st\<lparr>rooms := map_set roomId
            \<lparr>clients = map_set (join_id q) \<lparr>name = userName, res = None\<rparr> (sessions st roomId)\<rparr>
            (rooms st),
        trace := trace st
          @ reply q (JObj [(''clientId'', JStr (join_id q)), (''room'', JStr roomId),
                    (''peers'', JArr (map peer_entry (sessions st roomId)))])
          @ concat (map (\<lambda>s. event_frame s ''peer-joined''
                           (JObj [(''clientId'', JStr (join_id q)), (''name'', JStr userName)]))
                     (attached_except (join_id q) (sessions st roomId)))\<rparr>"
proof (cases q)
  case (Join h g body)
  with assms obtain b where "body = Some b" and "join_fields b = Some (roomId, userName)"
    by (cases body) simp_all
  with Join show ?thesis
    by (simp add: handleJoin_accepted)
next
  case (ApiJoin h g m body)
  with assms have "m = ''POST''"
    and "join_fields (normalizeBody parse body) = Some (roomId, userName)"
    by (simp_all split: if_splits)
  with ApiJoin show ?thesis
    by (simp add: handler_accepted)
qed (use assms in simp_all)

lemma sessions_step_accepted:
  assumes "accepted parse q = Some (roomId, userName)"
  shows "sessions (step parse q st) roomId =
     map_set (join_id q) \<lparr>name = userName, res = None\<rparr> (sessions st roomId)"
  by (simp add: step_accepted [OF assms] sessions_def map_get_map_set)

text \<open>
  C6. An accepted join, through either entry point, appends to the trace first the
  complete 200 response (client id, room id and the peers found before the insertion) and
  only then the \<open>peer-joined\<close> frames. The frames go to the streams of the sessions
  that were in the room before and whose id differs from the new client id; the new
  session itself is stored without a stream, so no frame can reach the joiner.
\<close>

theorem join_reply_before_broadcast:
  assumes "accepted parse q = Some (roomId, userName)"
  shows "trace (step parse q st) =
       trace st
       @ reply q (JObj [(''clientId'', JStr (join_id q)), (''room'', JStr roomId),
                        (''peers'', JArr (map peer_entry (sessions st roomId)))])
       @ concat (map (\<lambda>s. event_frame s ''peer-joined''
                        (JObj [(''clientId'', JStr (join_id q)), (''name'', JStr userName)]))
                  (attached_except (join_id q) (sessions st roomId)))
     \<and> map_get (sessions (step parse q st) roomId) (join_id q) =
         Some \<lparr>name = userName, res = None\<rparr>"
  by (simp add: step_accepted [OF assms] sessions_step_accepted [OF assms] map_get_map_set
      sessions_def del: JSON_stringify.simps)

lemma trim_example [simp]: "trim '' r1 '' = ''r1''" "trim ''r1'' = ''r1''"
  "trim ''Linus'' = ''Linus''" "trim ''Ada'' = ''Ada''" "trim '' Grace'' = ''Grace''"
  by (simp_all add: trim_def is_space_def)

theorem join_reply_before_broadcast_witness:
  "trace (step (\<lambda>s. None) (Join 5 ''C'' (Some (join_body (JStr '' r1 '') (JStr ''Linus'')))) scenario) =
     [WriteHead 5 200 [(''Content-Type'', ''application/json'')],
      End 5 (Some (JSON_stringify (JObj [(''clientId'', JStr ''C''), (''room'', JStr ''r1''),
         (''peers'', JArr [JObj [(''clientId'', JStr ''A''), (''name'', JStr ''Ada'')],
                           JObj [(''clientId'', JStr ''B''), (''name'', JStr ''Grace'')]])]))),
      Write 2 (''event: peer-joined'' @ [CHR 0x0A]),
      Write 2 (''data: '' @ JSON_stringify (JObj [(''clientId'', JStr ''C''),
                  (''name'', JStr ''Linus'')]) @ [CHR 0x0A, CHR 0x0A])]"
proof -
  have "accepted (\<lambda>s. None) (Join 5 ''C'' (Some (join_body (JStr '' r1 '') (JStr ''Linus'')))) =
      Some (''r1'', ''Linus'')"
    by (simp add: join_fields_def join_body_def roomId_of_def userName_of_def)
  from join_reply_before_broadcast [OF this, of scenario] show ?thesis
    by (simp add: scenario_sessions scenario_trace attached_except_def peer_entry_def
        event_frame_def del: JSON_stringify.simps)
qed

lemma map_set_fresh: "k \<notin> set (map fst m) \<Longrightarrow> map_set k v m = m @ [(k, v)]"
  by (induction m) auto

lemma run_snoc: "run parse (qs @ [q]) st = step parse q (run parse qs st)"
  by (simp add: run_def)

lemma roster_append [simp]: "roster (cs @ ds) = roster cs @ roster ds"
  by (simp add: roster_def)

lemma map_fst_roster [simp]: "map fst (roster cs) = map fst cs"
  by (simp add: roster_def comp_def)

lemma roster_map_set_same_name:
  "map_get cs k = Some c \<Longrightarrow> name c' = name c \<Longrightarrow> roster (map_set k c' cs) = roster cs"
proof (induction cs)
  case Nil
  then show ?case by (simp add: map_get_def)
next
  case (Cons p cs)
  then show ?case
    by (cases "fst p = k") (auto simp: map_get_def roster_def)
qed

lemma sessions_other_room:
  "roomId' \<noteq> roomId \<Longrightarrow>
   sessions (st\<lparr>rooms := map_set roomId' r (rooms st), trace := tr\<rparr>) roomId = sessions st roomId"
  by (simp add: sessions_def map_get_map_set)

lemma rooms_handleJoin_rejected:
  assumes "accepted parse (Join h g body) = None"
  shows "rooms (handleJoin h g body st) = rooms st"
proof (cases body)
  case None
  then show ?thesis by (simp add: handleJoin_def)
next
  case (Some b)
  with assms have "join_fields b = None" by simp
  with Some show ?thesis
    by (auto simp: handleJoin_def join_fields_def split: option.splits if_splits)
qed

lemma handler_rejected:
  assumes "join_fields (normalizeBody parse body) = None"
  shows "handler parse h g ''POST'' body st = Inl TypeError
       \<or> handler parse h g ''POST'' body st =
           Inr (emit [Status h 400, Json h (error_body ''Missing room or name'')] st)"
proof (cases "normalizeBody parse body = JNull")
  case True
  then show ?thesis by (simp add: handler_def)
next
  case nn: False
  show ?thesis
  proof (cases "roomId_of (get_prop (normalizeBody parse body) ''room'')")
    case None
    with nn show ?thesis by (simp add: handler_def)
  next
    case r: (Some roomId)
    show ?thesis
    proof (cases "userName_of (get_prop (normalizeBody parse body) ''name'')")
      case None
      with nn r show ?thesis by (simp add: handler_def)
    next
      case (Some userName)
      with nn r assms have "roomId = [] \<or> userName = []"
        by (simp add: join_fields_def split: if_splits)
      with nn r Some show ?thesis by (simp add: handler_def)
    qed
  qed
qed

lemma rooms_handler_rejected:
  assumes "accepted parse (ApiJoin h g m body) = None"
    and "handler parse h g m body st = Inr st'"
  shows "rooms st' = rooms st"
proof (cases "m = ''POST''")
  case False
  with assms(2) show ?thesis by (auto simp: handler_def)
next
  case True
  with assms(1) have "join_fields (normalizeBody parse body) = None" by simp
  from handler_rejected [OF this, of h g st] True assms(2) show ?thesis
    by auto
qed

lemma roster_attach:
  assumes "map_get (rooms st) r = Some x" and "map_get (clients x) k = Some c"
  shows "roster (sessions (st\<lparr>rooms := map_set r \<lparr>clients = map_set k (c\<lparr>res := Some h\<rparr>) (clients x)\<rparr>
            (rooms st)\<rparr>) roomId) = roster (sessions st roomId)"
proof (cases "r = roomId")
  case True
  with assms show ?thesis
    by (simp add: sessions_def map_get_map_set roster_map_set_same_name)
next
  case False
  then show ?thesis
    by (simp add: sessions_def map_get_map_set)
qed

lemma roster_handleEventStream:
  "roster (sessions (handleEventStream h rp cp st) roomId) = roster (sessions st roomId)"
proof (cases rp)
  case None
  then show ?thesis
    by (simp add: handleEventStream_def sessions_def)
next
  case rp: (Some r)
  show ?thesis
  proof (cases cp)
    case None
    with rp show ?thesis
      by (simp add: handleEventStream_def sessions_def)
  next
    case cp: (Some k)
    show ?thesis
    proof (cases "r = [] \<or> k = []")
      case True
      with rp cp show ?thesis
        by (simp add: handleEventStream_def sessions_def)
    next
      case ne: False
      show ?thesis
      proof (cases "map_get (rooms st) r")
        case None
        with rp cp ne show ?thesis
          by (simp add: handleEventStream_def sessions_def)
      next
        case x: (Some x)
        show ?thesis
        proof (cases "map_get (clients x) k")
          case None
          with rp cp ne x show ?thesis
            by (simp add: handleEventStream_def sessions_def)
        next
          case (Some c)
          have "rooms (handleEventStream h rp cp st) =
              rooms (st\<lparr>rooms := map_set r \<lparr>clients = map_set k (c\<lparr>res := Some h\<rparr>) (clients x)\<rparr>
                (rooms st)\<rparr>)"
            using rp cp ne x Some by (simp add: handleEventStream_def Let_def)
          then have "sessions (handleEventStream h rp cp st) =
              sessions (st\<lparr>rooms := map_set r \<lparr>clients = map_set k (c\<lparr>res := Some h\<rparr>) (clients x)\<rparr>
                (rooms st)\<rparr>)"
            by (rule sessions_cong)
          then show ?thesis
            by (simp only: roster_attach [OF x Some])
        qed
      qed
    qed
  qed
qed

lemma joins_intoD:
  "joins_into parse roomId q \<Longrightarrow> accepted parse q = Some (roomId, join_name parse q)"
  by (auto simp: joins_into_def join_name_def split: option.splits)

lemma roster_step_join:
  assumes "joins_into parse roomId q"
    and "join_id q \<notin> set (map fst (sessions st roomId))"
  shows "roster (sessions (step parse q st) roomId) =
     roster (sessions st roomId) @ [(join_id q, join_name parse q)]"
  using assms(2)
  by (simp add: sessions_step_accepted [OF joins_intoD [OF assms(1)]] map_set_fresh roster_def)

lemma roster_step_other:
  assumes "\<not> joins_into parse roomId q" and "\<not> is_teardown q"
  shows "roster (sessions (step parse q st) roomId) = roster (sessions st roomId)"
proof (cases "accepted parse q")
  case (Some a)
  obtain r n where a: "a = (r, n)" by (cases a)
  with Some assms(1) have "r \<noteq> roomId"
    by (simp add: joins_into_def)
  with Some a show ?thesis
    by (simp add: step_accepted [of parse q r n] sessions_other_room del: JSON_stringify.simps)
next
  case None
  show ?thesis
  proof (cases q)
    case (Join h g body)
    with None show ?thesis
      by (simp add: sessions_cong [OF rooms_handleJoin_rejected])
  next
    case (ApiJoin h g m body)
    with None show ?thesis
      by (auto simp: sessions_cong [OF rooms_handler_rejected] split: sum.splits)
  next
    case (Signal h body)
    then show ?thesis by (simp add: sessions_def)
  next
    case (Events h rp cp)
    then show ?thesis by (simp add: roster_handleEventStream)
  next
    case (Heartbeat h)
    then show ?thesis by (simp add: heartbeat_def sessions_def)
  next
    case (Leave h body)
    with assms(2) show ?thesis by simp
  next
    case (Closed h r c)
    with assms(2) show ?thesis by simp
  qed
qed

lemma roster_after_run:
  assumes "sessions st roomId = []"
    and "\<forall>p \<in> set qs. \<not> is_teardown p"
    and "distinct (map join_id (filter (joins_into parse roomId) qs))"
  shows "roster (sessions (run parse qs st) roomId) =
     map (\<lambda>p. (join_id p, join_name parse p)) (filter (joins_into parse roomId) qs)"
  using assms(2,3)
proof (induction qs rule: rev_induct)
  case Nil
  with assms(1) show ?case by (simp add: run_def roster_def)
next
  case (snoc q qs)
  then have IH: "roster (sessions (run parse qs st) roomId) =
      map (\<lambda>p. (join_id p, join_name parse p)) (filter (joins_into parse roomId) qs)"
    by (simp split: if_splits)
  from snoc.prems(1) have nt: "\<not> is_teardown q" by simp
  show ?case
  proof (cases "joins_into parse roomId q")
    case True
    with snoc.prems(2) have "join_id q \<notin> set (map join_id (filter (joins_into parse roomId) qs))"
      by simp
    moreover have "map fst (sessions (run parse qs st) roomId) =
        map join_id (filter (joins_into parse roomId) qs)"
      using arg_cong [OF IH, of "map fst"] by (simp add: comp_def)
    ultimately have "join_id q \<notin> set (map fst (sessions (run parse qs st) roomId))"
      by simp
    from roster_step_join [OF True this] IH True show ?thesis
      by (simp add: run_snoc)
  next
    case False
    from roster_step_other [OF False nt, of "run parse qs st"] IH False show ?thesis
      by (simp add: run_snoc)
  qed
qed

lemma peer_entry_roster: "map peer_entry cs =
    map (\<lambda>p. JObj [(''clientId'', JStr (fst p)), (''name'', JStr (snd p))]) (roster cs)"
  by (simp add: peer_entry_def roster_def comp_def)

text \<open>
  C3. Take a room that is not registered and any run without leave and without closed
  stream: accepted joins into the room through either entry point, with pairwise distinct
  generated client ids, and between them stream opens, signals, keep-alive ticks, rejected
  joins and joins into other rooms. The response to an accepted join into the room lists
  as peers exactly the earlier accepted joiners of that room, in order, each with the
  client id generated for it and the display name stored for it; the joiner's own id is
  not among them; the response is followed by the \<open>peer-joined\<close> frames to the earlier
  joiners that have opened a stream; and the session table then holds all the joiners
  under those names.
\<close>

theorem nth_joiner_peers:
  assumes "map_get (rooms st) roomId = None"
    and "\<forall>p \<in> set qs. \<not> is_teardown p"
    and "joins_into parse roomId q"
    and "distinct (map join_id (filter (joins_into parse roomId) (qs @ [q])))"
  shows "trace (run parse (qs @ [q]) st) =
       trace (run parse qs st)
       @ reply q (JObj [(''clientId'', JStr (join_id q)), (''room'', JStr roomId),
           (''peers'', JArr (map (\<lambda>p. JObj [(''clientId'', JStr (join_id p)),
                                             (''name'', JStr (join_name parse p))])
                              (filter (joins_into parse roomId) qs)))])
       @ concat (map (\<lambda>s. event_frame s ''peer-joined''
                        (JObj [(''clientId'', JStr (join_id q)),
                               (''name'', JStr (join_name parse q))]))
                  (attached_except (join_id q) (sessions (run parse qs st) roomId)))
     \<and> join_id q \<notin> set (map join_id (filter (joins_into parse roomId) qs))
     \<and> roster (sessions (run parse (qs @ [q]) st) roomId) =
         map (\<lambda>p. (join_id p, join_name parse p)) (filter (joins_into parse roomId) (qs @ [q]))"
proof -
  from assms(1) have fresh: "sessions st roomId = []"
    by (simp add: sessions_def)
  from assms(3,4) have ids: "distinct (map join_id (filter (joins_into parse roomId) qs))"
    and own: "join_id q \<notin> set (map join_id (filter (joins_into parse roomId) qs))"
    by simp_all
  have before: "roster (sessions (run parse qs st) roomId) =
      map (\<lambda>p. (join_id p, join_name parse p)) (filter (joins_into parse roomId) qs)"
    by (rule roster_after_run [OF fresh assms(2) ids])
  have "trace (run parse (qs @ [q]) st) =
       trace (run parse qs st)
       @ reply q (JObj [(''clientId'', JStr (join_id q)), (''room'', JStr roomId),
           (''peers'', JArr (map (\<lambda>p. JObj [(''clientId'', JStr (join_id p)),
                                             (''name'', JStr (join_name parse p))])
                              (filter (joins_into parse roomId) qs)))])
       @ concat (map (\<lambda>s. event_frame s ''peer-joined''
                        (JObj [(''clientId'', JStr (join_id q)),
                               (''name'', JStr (join_name parse q))]))
                  (attached_except (join_id q) (sessions (run parse qs st) roomId)))"
    by (simp add: run_snoc step_accepted [OF joins_intoD [OF assms(3)]] peer_entry_roster before
        comp_def del: JSON_stringify.simps)
  moreover from assms(2) have "\<forall>p \<in> set (qs @ [q]). \<not> is_teardown p"
    using assms(3) by (cases q) (auto simp: joins_into_def)
  then have "roster (sessions (run parse (qs @ [q]) st) roomId) =
      map (\<lambda>p. (join_id p, join_name parse p)) (filter (joins_into parse roomId) (qs @ [q]))"
    by (rule roster_after_run [OF fresh _ assms(4)])
  ultimately show ?thesis using own by simp
qed

lemma run_Cons: "run parse (q # qs) st = run parse qs (step parse q st)"
  by (simp add: run_def)

lemma run_Nil: "run parse [] st = st"
  by (simp add: run_def)

lemma accepted_example:
  "join_fields (join_body (JStr '' r1 '') (JStr ''Linus'')) = Some (''r1'', ''Linus'')"
  "join_fields (join_body (JStr '' r1 '') (JStr ''Ada'')) = Some (''r1'', ''Ada'')"
  by (simp_all add: join_fields_def join_body_def roomId_of_def userName_of_def)

lemma accepted_run_example:
  "accepted (\<lambda>s. None) (Join 4 ''A'' (Some (join_body (JStr '' r1 '') (JStr ''Ada'')))) =
     Some (''r1'', ''Ada'')"
  "accepted (\<lambda>s. None) (Events 6 (Some ''r1'') (Some ''A'')) = None"
  "accepted (\<lambda>s. None)
     (ApiJoin 5 ''B'' ''POST'' (Some (join_body (JStr ''r1'') (JStr '' Grace'')))) =
     Some (''r1'', ''Grace'')"
  "accepted (\<lambda>s. None) (Signal 7 body) = None"
  "accepted (\<lambda>s. None) (Join 8 ''C'' (Some (join_body (JStr ''r1'') (JStr ''Linus'')))) =
     Some (''r1'', ''Linus'')"
  by (simp_all add: join_fields_def join_body_def roomId_of_def userName_of_def normalizeBody_def)

lemma rooms_run_example:
  "rooms (run (\<lambda>s. None)
      [Join 4 ''A'' (Some (join_body (JStr '' r1 '') (JStr ''Ada''))),
       Events 6 (Some ''r1'') (Some ''A''),
       ApiJoin 5 ''B'' ''POST'' (Some (join_body (JStr ''r1'') (JStr '' Grace''))),
       Signal 7 body] init) =
     [(''r1'', \<lparr>clients = [(''A'', \<lparr>name = ''Ada'', res = Some 6\<rparr>),
                              (''B'', \<lparr>name = ''Grace'', res = None\<rparr>)]\<rparr>)]"
proof -
  have 1: "rooms (step (\<lambda>s. None)
      (Join 4 ''A'' (Some (join_body (JStr '' r1 '') (JStr ''Ada'')))) init) =
      [(''r1'', \<lparr>clients = [(''A'', \<lparr>name = ''Ada'', res = None\<rparr>)]\<rparr>)]"
    by (simp add: step_accepted [OF accepted_run_example(1)] init_def sessions_def map_get_def
        del: step.simps JSON_stringify.simps)
  have 2: "rooms st = [(''r1'', \<lparr>clients = [(''A'', \<lparr>name = ''Ada'', res = None\<rparr>)]\<rparr>)] \<Longrightarrow>
      rooms (step (\<lambda>s. None) (Events 6 (Some ''r1'') (Some ''A'')) st) =
      [(''r1'', \<lparr>clients = [(''A'', \<lparr>name = ''Ada'', res = Some 6\<rparr>)]\<rparr>)]" for st
    by (simp add: handleEventStream_def map_get_def Let_def)
  have 3: "rooms st = [(''r1'', \<lparr>clients = [(''A'', \<lparr>name = ''Ada'', res = Some 6\<rparr>)]\<rparr>)] \<Longrightarrow>
      rooms (step (\<lambda>s. None)
        (ApiJoin 5 ''B'' ''POST'' (Some (join_body (JStr ''r1'') (JStr '' Grace'')))) st) =
      [(''r1'', \<lparr>clients = [(''A'', \<lparr>name = ''Ada'', res = Some 6\<rparr>),
                               (''B'', \<lparr>name = ''Grace'', res = None\<rparr>)]\<rparr>)]" for st
    by (simp add: step_accepted [OF accepted_run_example(3)] sessions_def map_get_def
        del: step.simps JSON_stringify.simps)
  show ?thesis
    by (simp only: run_Cons run_Nil 1 2 3 step.simps(3) rooms_handleSignal)
qed

theorem nth_joiner_peers_witness:
  "trace (run (\<lambda>s. None)
      [Join 4 ''A'' (Some (join_body (JStr '' r1 '') (JStr ''Ada''))),
       Events 6 (Some ''r1'') (Some ''A''),
       ApiJoin 5 ''B'' ''POST'' (Some (join_body (JStr ''r1'') (JStr '' Grace''))),
       Signal 7 (Some (signal_body (JStr ''r1'') (JStr ''B'') (JStr ''A'') (JStr ''x''))),
       Join 8 ''C'' (Some (join_body (JStr ''r1'') (JStr ''Linus'')))] init) =
   trace (run (\<lambda>s. None)
      [Join 4 ''A'' (Some (join_body (JStr '' r1 '') (JStr ''Ada''))),
       Events 6 (Some ''r1'') (Some ''A''),
       ApiJoin 5 ''B'' ''POST'' (Some (join_body (JStr ''r1'') (JStr '' Grace''))),
       Signal 7 (Some (signal_body (JStr ''r1'') (JStr ''B'') (JStr ''A'') (JStr ''x'')))] init)
   @ [WriteHead 8 200 [(''Content-Type'', ''application/json'')],
      End 8 (Some (''{'' @ quoted ''clientId'' @ '':'' @ quoted ''C'' @ '','' @ quoted ''room''
         @ '':'' @ quoted ''r1'' @ '','' @ quoted ''peers'' @ '':[{'' @ quoted ''clientId''
         @ '':'' @ quoted ''A'' @ '','' @ quoted ''name'' @ '':'' @ quoted ''Ada'' @ ''},{''
         @ quoted ''clientId'' @ '':'' @ quoted ''B'' @ '','' @ quoted ''name'' @ '':''
         @ quoted ''Grace'' @ ''}]}'')),
      Write 6 (''event: peer-joined'' @ [CHR 0x0A]),
      Write 6 (''data: {'' @ quoted ''clientId'' @ '':'' @ quoted ''C'' @ '','' @ quoted ''name''
         @ '':'' @ quoted ''Linus'' @ ''}'' @ [CHR 0x0A, CHR 0x0A])]
   \<and> roster (sessions (run (\<lambda>s. None)
      [Join 4 ''A'' (Some (join_body (JStr '' r1 '') (JStr ''Ada''))),
       Events 6 (Some ''r1'') (Some ''A''),
       ApiJoin 5 ''B'' ''POST'' (Some (join_body (JStr ''r1'') (JStr '' Grace''))),
       Signal 7 (Some (signal_body (JStr ''r1'') (JStr ''B'') (JStr ''A'') (JStr ''x''))),
       Join 8 ''C'' (Some (join_body (JStr ''r1'') (JStr ''Linus'')))] init) ''r1'') =
     [(''A'', ''Ada''), (''B'', ''Grace''), (''C'', ''Linus'')]"
proof -
  let ?qs = "[Join 4 ''A'' (Some (join_body (JStr '' r1 '') (JStr ''Ada''))),
       Events 6 (Some ''r1'') (Some ''A''),
       ApiJoin 5 ''B'' ''POST'' (Some (join_body (JStr ''r1'') (JStr '' Grace''))),
       Signal 7 (Some (signal_body (JStr ''r1'') (JStr ''B'') (JStr ''A'') (JStr ''x'')))]"
  let ?q = "Join 8 ''C'' (Some (join_body (JStr ''r1'') (JStr ''Linus'')))"
  have fresh: "map_get (rooms init) ''r1'' = None"
    by (simp add: init_def map_get_def)
  have nt: "\<forall>p \<in> set ?qs. \<not> is_teardown p"
    by simp
  have j: "joins_into (\<lambda>s. None) ''r1'' ?q"
    by (simp add: joins_into_def accepted_run_example del: accepted.simps)
  have f: "filter (joins_into (\<lambda>s. None) ''r1'') (?qs @ [?q]) =
      [Join 4 ''A'' (Some (join_body (JStr '' r1 '') (JStr ''Ada''))),
       ApiJoin 5 ''B'' ''POST'' (Some (join_body (JStr ''r1'') (JStr '' Grace''))), ?q]"
    by (simp add: joins_into_def accepted_run_example del: accepted.simps)
  have f': "filter (joins_into (\<lambda>s. None) ''r1'') ?qs =
      [Join 4 ''A'' (Some (join_body (JStr '' r1 '') (JStr ''Ada''))),
       ApiJoin 5 ''B'' ''POST'' (Some (join_body (JStr ''r1'') (JStr '' Grace'')))]"
    by (simp add: joins_into_def accepted_run_example del: accepted.simps)
  have d: "distinct (map join_id (filter (joins_into (\<lambda>s. None) ''r1'') (?qs @ [?q])))"
    unfolding f by simp
  have s: "sessions (run (\<lambda>s. None) ?qs init) ''r1'' =
      [(''A'', \<lparr>name = ''Ada'', res = Some 6\<rparr>), (''B'', \<lparr>name = ''Grace'', res = None\<rparr>)]"
    by (simp add: sessions_def rooms_run_example map_get_def)
  have a: "attached_except ''C'' [(''A'', \<lparr>name = ''Ada'', res = Some (6::nat)\<rparr>),
      (''B'', \<lparr>name = ''Grace'', res = None\<rparr>)] = [6]"
    by (simp add: attached_except_def)
  have js: "JSON_stringify (JObj [(''clientId'', JStr ''C''), (''room'', JStr ''r1''),
        (''peers'', JArr [JObj [(''clientId'', JStr ''A''), (''name'', JStr ''Ada'')],
                          JObj [(''clientId'', JStr ''B''), (''name'', JStr ''Grace'')]])]) =
      ''{'' @ quoted ''clientId'' @ '':'' @ quoted ''C'' @ '','' @ quoted ''room''
         @ '':'' @ quoted ''r1'' @ '','' @ quoted ''peers'' @ '':[{'' @ quoted ''clientId''
         @ '':'' @ quoted ''A'' @ '','' @ quoted ''name'' @ '':'' @ quoted ''Ada'' @ ''},{''
         @ quoted ''clientId'' @ '':'' @ quoted ''B'' @ '','' @ quoted ''name'' @ '':''
         @ quoted ''Grace'' @ ''}]}''"
    "JSON_stringify (JObj [(''clientId'', JStr ''C''), (''name'', JStr ''Linus'')]) =
      ''{'' @ quoted ''clientId'' @ '':'' @ quoted ''C'' @ '','' @ quoted ''name''
         @ '':'' @ quoted ''Linus'' @ ''}''"
    by (simp_all add: quote_def quoted_def escape_char_def)
  from nth_joiner_peers [OF fresh nt j d]
  show ?thesis
    unfolding f f' s
    by (simp add: a join_name_def accepted_run_example event_frame_def js
        del: accepted.simps JSON_stringify.simps)
qed

text \<open>
  C9. Whatever the state of the registry (the room registered or not, any number of rooms
  and of sessions in them), a join whose body is not \<^verbatim>\<open>null\<close> and whose room id and
  display name are non-empty after conversion and trimming is answered with status 200
  and the generated client id, and the session is in the room afterwards. This holds for
  the handler of index.js and, on a POST, for the serverless handler, which returns
  normally.
\<close>

theorem join_never_refused:
  assumes "b \<noteq> JNull"
    and "roomId_of (get_prop b ''room'') = Some roomId" and "roomId \<noteq> []"
    and "userName_of (get_prop b ''name'') = Some userName" and "userName \<noteq> []"
  shows "(\<exists>peers rest. trace (handleJoin h g (Some b) st) =
            trace st
            @ [WriteHead h 200 [(''Content-Type'', ''application/json'')],
               End h (Some (JSON_stringify (JObj [(''clientId'', JStr g), (''room'', JStr roomId),
                                                  (''peers'', JArr peers)])))]
            @ rest)
     \<and> map_get (sessions (handleJoin h g (Some b) st) roomId) g =
         Some \<lparr>name = userName, res = None\<rparr>
     \<and> (normalizeBody parse body = b \<longrightarrow>
          (\<exists>st' peers rest. handler parse h g ''POST'' body st = Inr st'
             \<and> trace st' = trace st
                 @ [Status h 200,
                    Json h (JObj [(''clientId'', JStr g), (''room'', JStr roomId),
                                  (''peers'', JArr peers)])]
                 @ rest
             \<and> map_get (sessions st' roomId) g = Some \<lparr>name = userName, res = None\<rparr>))"
proof -
  from assms have f: "join_fields b = Some (roomId, userName)"
    by (simp add: join_fields_def)
  have "\<exists>peers rest. trace (handleJoin h g (Some b) st) =
            trace st
            @ [WriteHead h 200 [(''Content-Type'', ''application/json'')],
               End h (Some (JSON_stringify (JObj [(''clientId'', JStr g), (''room'', JStr roomId),
                                                  (''peers'', JArr peers)])))]
            @ rest"
    unfolding handleJoin_accepted [OF f] by (intro exI) simp
  moreover have "map_get (sessions (handleJoin h g (Some b) st) roomId) g =
         Some \<lparr>name = userName, res = None\<rparr>"
    unfolding handleJoin_accepted [OF f] by (simp add: sessions_def map_get_map_set)
  moreover have "\<exists>st' peers rest. handler parse h g ''POST'' body st = Inr st'
             \<and> trace st' = trace st
                 @ [Status h 200,
                    Json h (JObj [(''clientId'', JStr g), (''room'', JStr roomId),
                                  (''peers'', JArr peers)])]
                 @ rest
             \<and> map_get (sessions st' roomId) g = Some \<lparr>name = userName, res = None\<rparr>"
    if "normalizeBody parse body = b"
  proof -
    from that f have "join_fields (normalizeBody parse body) = Some (roomId, userName)"
      by simp
    note eq = handler_accepted [OF this, of h g st]
    show ?thesis
      unfolding eq
      by (intro exI conjI, rule refl) (simp_all add: sessions_def map_get_map_set)
  qed
  ultimately show ?thesis by blast
qed

theorem join_never_refused_witness:
  "(\<exists>peers rest. trace (handleJoin 5 ''C'' (Some (join_body (JStr '' r1 '') (JStr ''Linus''))) scenario) =
            [WriteHead 5 200 [(''Content-Type'', ''application/json'')],
             End 5 (Some (JSON_stringify (JObj [(''clientId'', JStr ''C''), (''room'', JStr ''r1''),
                                                (''peers'', JArr peers)])))]
            @ rest)
   \<and> map_get (sessions (handleJoin 5 ''C'' (Some (join_body (JStr '' r1 '') (JStr ''Linus'')))
          scenario) ''r1'') ''C'' = Some \<lparr>name = ''Linus'', res = None\<rparr>
   \<and> (\<exists>st' peers rest.
          handler (\<lambda>s. None) 5 ''C'' ''POST'' (Some (join_body (JStr '' r1 '') (JStr ''Linus'')))
            scenario = Inr st'
          \<and> trace st' =
              [Status 5 200,
               Json 5 (JObj [(''clientId'', JStr ''C''), (''room'', JStr ''r1''),
                             (''peers'', JArr peers)])]
              @ rest
          \<and> map_get (sessions st' ''r1'') ''C'' = Some \<lparr>name = ''Linus'', res = None\<rparr>)"
proof -
  have b: "join_body (JStr '' r1 '') (JStr ''Linus'') \<noteq> JNull"
    by (simp add: join_body_def)
  have r: "roomId_of (get_prop (join_body (JStr '' r1 '') (JStr ''Linus'')) ''room'') = Some ''r1''"
    by (simp add: join_body_def roomId_of_def)
  have n: "userName_of (get_prop (join_body (JStr '' r1 '') (JStr ''Linus'')) ''name'') =
      Some ''Linus''"
    by (simp add: join_body_def userName_of_def)
  have nb: "normalizeBody (\<lambda>s. None) (Some (join_body (JStr '' r1 '') (JStr ''Linus''))) =
      join_body (JStr '' r1 '') (JStr ''Linus'')"
    by (simp add: normalizeBody_def join_body_def)
  from join_never_refused [OF b r _ n, of 5 "''C''" scenario "\<lambda>s. None"
      "Some (join_body (JStr '' r1 '') (JStr ''Linus''))"] nb
  show ?thesis
    by (simp add: scenario_trace del: JSON_stringify.simps)
qed

section \<open>Room identifiers\<close>

lemma joined_example:
  "handleJoin 4 ''A'' (Some (join_body (JStr '' r1 '') (JStr ''Ada''))) init =
     \<lparr>rooms = [(''r1'', \<lparr>clients = [(''A'', \<lparr>name = ''Ada'', res = None\<rparr>)]\<rparr>)],
      trace = [WriteHead 4 200 [(''Content-Type'', ''application/json'')],
               End 4 (Some (JSON_stringify (JObj [(''clientId'', JStr ''A''),
                 (''room'', JStr ''r1''), (''peers'', JArr [])])))],
      heartbeats = []\<rparr>"
  by (simp add: handleJoin_accepted [OF accepted_example(2)] init_def sessions_def map_get_def
      attached_except_def del: JSON_stringify.simps)

text \<open>
  C8 as stated fails. A join with the identifier \<open>'' r1 ''\<close> registers the room under
  the key \<open>''r1''\<close>; the same identifier given to a signal or to a stream open is answered
  404, and a leave with it removes nothing.
\<close>

theorem room_id_not_trimmed_counterexample:
  "rooms (handleJoin 4 ''A'' (Some (join_body (JStr '' r1 '') (JStr ''Ada''))) init) =
     [(''r1'', \<lparr>clients = [(''A'', \<lparr>name = ''Ada'', res = None\<rparr>)]\<rparr>)]
   \<and> statuses 7 (trace (handleSignal 7
         (Some (signal_body (JStr '' r1 '') (JStr ''B'') (JStr ''A'') (JStr ''x'')))
         (handleJoin 4 ''A'' (Some (join_body (JStr '' r1 '') (JStr ''Ada''))) init))) = [404]
   \<and> statuses 6 (trace (handleEventStream 6 (Some '' r1 '') (Some ''A'')
         (handleJoin 4 ''A'' (Some (join_body (JStr '' r1 '') (JStr ''Ada''))) init))) = [404]
   \<and> rooms (handleLeave 8 (Some (JObj [(''room'', JStr '' r1 ''), (''clientId'', JStr ''A'')]))
         (handleJoin 4 ''A'' (Some (join_body (JStr '' r1 '') (JStr ''Ada''))) init)) =
     [(''r1'', \<lparr>clients = [(''A'', \<lparr>name = ''Ada'', res = None\<rparr>)]\<rparr>)]"
  unfolding joined_example
  by (simp add: handleSignal_def handleEventStream_def handleLeave_def removeClient_def
      signal_body_def map_get_def json_reply_def emit_def statuses_def
      del: JSON_stringify.simps)

lemma handleSignal_no_room:
  assumes "get_prop b ''room'' = Some v" and "get_prop b ''from'' = Some f"
    and "get_prop b ''target'' = Some t" and "get_prop b ''data'' = Some d"
    and "truthy v" and "truthy f" and "truthy t" and "truthy d"
    and "String_js v = Some s" and "map_get (rooms st) s = None"
  shows "handleSignal h (Some b) st = json_reply h 404 (error_body ''Room not found'') st"
proof -
  from assms(1) have "b \<noteq> JNull" by auto
  with assms show ?thesis by (simp add: handleSignal_def)
qed

lemma handleLeave_no_room:
  assumes "get_prop b ''room'' = Some v" and "get_prop b ''clientId'' = Some c"
    and "truthy v" and "truthy c"
    and "String_js v = Some s" and "String_js c = Some cid" and "map_get (rooms st) s = None"
  shows "handleLeave h (Some b) st = emit [WriteHead h 204 [], End h None] st"
proof -
  from assms(1) have "b \<noteq> JNull" by auto
  with assms show ?thesis by (simp add: handleLeave_def removeClient_def)
qed

lemma handleEventStream_no_room:
  assumes "s \<noteq> []" and "cid \<noteq> []" and "map_get (rooms st) s = None"
  shows "handleEventStream h (Some s) (Some cid) st =
     emit [WriteHead h 404 [], End h (Some ''Client not registered in room'')] st"
  using assms by (simp add: handleEventStream_def)

lemma roomId_of_truthy: "truthy v \<Longrightarrow> roomId_of (Some v) = map_option trim (String_js v)"
  by (simp add: roomId_of_def)

text \<open>
  C8, amended. Only the join handler trims. For a truthy room value that converts to the
  string \<open>s\<close>: an accepted join registers the session under the key \<open>trim s\<close>; a signal,
  a leave and a stream open use \<open>s\<close> itself as the key, so when \<open>s\<close> is not a key of the
  registry the signal is answered 404 "Room not found", the leave removes nothing and is
  answered 204, and the stream open is answered 404, whether or not \<open>trim s\<close> is a key.
\<close>

theorem room_id_trimmed_by_join_only:
  assumes "truthy v" and "String_js v = Some s"
  shows "(get_prop bj ''room'' = Some v \<longrightarrow> join_fields bj = Some (roomId, userName) \<longrightarrow>
            roomId = trim s
            \<and> map_get (sessions (handleJoin h g (Some bj) st) (trim s)) g =
                Some \<lparr>name = userName, res = None\<rparr>)
       \<and> (map_get (rooms st) s = None \<longrightarrow>
            (get_prop bs ''room'' = Some v \<longrightarrow> get_prop bs ''from'' = Some f \<longrightarrow>
             get_prop bs ''target'' = Some t \<longrightarrow> get_prop bs ''data'' = Some d \<longrightarrow>
             truthy f \<longrightarrow> truthy t \<longrightarrow> truthy d \<longrightarrow>
               handleSignal h (Some bs) st =
                 json_reply h 404 (error_body ''Room not found'') st)
          \<and> (get_prop bl ''room'' = Some v \<longrightarrow> get_prop bl ''clientId'' = Some c \<longrightarrow>
             truthy c \<longrightarrow> String_js c = Some cid \<longrightarrow>
               handleLeave h (Some bl) st = emit [WriteHead h 204 [], End h None] st)
          \<and> (s \<noteq> [] \<longrightarrow> cid \<noteq> [] \<longrightarrow>
               handleEventStream h (Some s) (Some cid) st =
                 emit [WriteHead h 404 [], End h (Some ''Client not registered in room'')] st))"
proof (intro conjI impI)
  assume room: "get_prop bj ''room'' = Some v" and f: "join_fields bj = Some (roomId, userName)"
  from join_fields_SomeD(2) [OF f] room assms show "roomId = trim s"
    by (simp add: roomId_of_truthy)
  then show "map_get (sessions (handleJoin h g (Some bj) st) (trim s)) g =
      Some \<lparr>name = userName, res = None\<rparr>"
    by (simp add: handleJoin_accepted [OF f] sessions_def map_get_map_set)
next
  assume "map_get (rooms st) s = None" and "get_prop bs ''room'' = Some v"
    and "get_prop bs ''from'' = Some f" and "get_prop bs ''target'' = Some t"
    and "get_prop bs ''data'' = Some d" and "truthy f" and "truthy t" and "truthy d"
  with assms show "handleSignal h (Some bs) st =
      json_reply h 404 (error_body ''Room not found'') st"
    by (simp add: handleSignal_no_room)
next
  assume "map_get (rooms st) s = None" and "get_prop bl ''room'' = Some v"
    and "get_prop bl ''clientId'' = Some c" and "truthy c" and "String_js c = Some cid"
  with assms show "handleLeave h (Some bl) st = emit [WriteHead h 204 [], End h None] st"
    by (simp add: handleLeave_no_room)
next
  assume "map_get (rooms st) s = None" and "s \<noteq> []" and "cid \<noteq> []"
  then show "handleEventStream h (Some s) (Some cid) st =
      emit [WriteHead h 404 [], End h (Some ''Client not registered in room'')] st"
    by (simp add: handleEventStream_no_room)
qed

theorem room_id_trimmed_by_join_only_witness:
  "map_get (sessions (handleJoin 4 ''A'' (Some (join_body (JStr '' r1 '') (JStr ''Ada''))) init)
      ''r1'') ''A'' = Some \<lparr>name = ''Ada'', res = None\<rparr>
   \<and> handleSignal 7 (Some (signal_body (JStr '' r1 '') (JStr ''B'') (JStr ''A'') (JStr ''x'')))
        (handleJoin 4 ''A'' (Some (join_body (JStr '' r1 '') (JStr ''Ada''))) init) =
      json_reply 7 404 (error_body ''Room not found'')
        (handleJoin 4 ''A'' (Some (join_body (JStr '' r1 '') (JStr ''Ada''))) init)
   \<and> handleLeave 8 (Some (JObj [(''room'', JStr '' r1 ''), (''clientId'', JStr ''A'')]))
        (handleJoin 4 ''A'' (Some (join_body (JStr '' r1 '') (JStr ''Ada''))) init) =
      emit [WriteHead 8 204 [], End 8 None]
        (handleJoin 4 ''A'' (Some (join_body (JStr '' r1 '') (JStr ''Ada''))) init)
   \<and> handleEventStream 6 (Some '' r1 '') (Some ''A'')
        (handleJoin 4 ''A'' (Some (join_body (JStr '' r1 '') (JStr ''Ada''))) init) =
      emit [WriteHead 6 404 [], End 6 (Some ''Client not registered in room'')]
        (handleJoin 4 ''A'' (Some (join_body (JStr '' r1 '') (JStr ''Ada''))) init)"
proof -
  have v: "truthy (JStr '' r1 '')" and s: "String_js (JStr '' r1 '') = Some '' r1 ''"
    by simp_all
  have absent: "map_get (rooms (handleJoin 4 ''A''
      (Some (join_body (JStr '' r1 '') (JStr ''Ada''))) init)) '' r1 '' = None"
    unfolding joined_example by (simp add: map_get_def)
  have jb: "get_prop (join_body (JStr '' r1 '') (JStr ''Ada'')) ''room'' = Some (JStr '' r1 '')"
    by (simp add: join_body_def)
  from room_id_trimmed_by_join_only [OF v s, of "join_body (JStr '' r1 '') (JStr ''Ada'')"
      "''r1''" "''Ada''" 4 "''A''" init]
  have 1: "map_get (sessions (handleJoin 4 ''A''
      (Some (join_body (JStr '' r1 '') (JStr ''Ada''))) init) ''r1'') ''A'' =
      Some \<lparr>name = ''Ada'', res = None\<rparr>"
    by (simp add: jb accepted_example)
  from room_id_trimmed_by_join_only [OF v s,
      where st = "handleJoin 4 ''A'' (Some (join_body (JStr '' r1 '') (JStr ''Ada''))) init"
      and bs = "signal_body (JStr '' r1 '') (JStr ''B'') (JStr ''A'') (JStr ''x'')"
      and f = "JStr ''B''" and t = "JStr ''A''" and d = "JStr ''x''" and h = 7]
  have 2: "handleSignal 7 (Some (signal_body (JStr '' r1 '') (JStr ''B'') (JStr ''A'') (JStr ''x'')))
        (handleJoin 4 ''A'' (Some (join_body (JStr '' r1 '') (JStr ''Ada''))) init) =
      json_reply 7 404 (error_body ''Room not found'')
        (handleJoin 4 ''A'' (Some (join_body (JStr '' r1 '') (JStr ''Ada''))) init)"
    by (simp add: absent)
  from room_id_trimmed_by_join_only [OF v s,
      where st = "handleJoin 4 ''A'' (Some (join_body (JStr '' r1 '') (JStr ''Ada''))) init"
      and bl = "JObj [(''room'', JStr '' r1 ''), (''clientId'', JStr ''A'')]"
      and c = "JStr ''A''" and cid = "''A''" and h = 8]
  have 3: "handleLeave 8 (Some (JObj [(''room'', JStr '' r1 ''), (''clientId'', JStr ''A'')]))
        (handleJoin 4 ''A'' (Some (join_body (JStr '' r1 '') (JStr ''Ada''))) init) =
      emit [WriteHead 8 204 [], End 8 None]
        (handleJoin 4 ''A'' (Some (join_body (JStr '' r1 '') (JStr ''Ada''))) init)"
    by (simp add: absent)
  from room_id_trimmed_by_join_only [OF v s,
      where st = "handleJoin 4 ''A'' (Some (join_body (JStr '' r1 '') (JStr ''Ada''))) init"
      and cid = "''A''" and h = 6]
  have 4: "handleEventStream 6 (Some '' r1 '') (Some ''A'')
        (handleJoin 4 ''A'' (Some (join_body (JStr '' r1 '') (JStr ''Ada''))) init) =
      emit [WriteHead 6 404 [], End 6 (Some ''Client not registered in room'')]
        (handleJoin 4 ''A'' (Some (join_body (JStr '' r1 '') (JStr ''Ada''))) init)"
    by (simp add: absent)
  from 1 2 3 4 show ?thesis by blast
qed

section \<open>A life cycle\<close>

lemma lifecycle_example:
  "rooms (run (\<lambda>s. None)
      [Join 4 ''A'' (Some (join_body (JStr '' r1 '') (JStr ''Ada''))),
       Events 6 (Some ''r1'') (Some ''A''),
       Leave 8 (Some (JObj [(''room'', JStr ''r1''), (''clientId'', JStr ''A'')]))] init) = []"
  "rooms (run (\<lambda>s. None)
      [Join 4 ''A'' (Some (join_body (JStr '' r1 '') (JStr ''Ada''))),
       Events 6 (Some ''r1'') (Some ''A''),
       Closed 6 ''r1'' ''A''] init) = []"
  "rooms (run (\<lambda>s. None)
      [Join 4 ''A'' (Some (join_body (JStr '' r1 '') (JStr ''Ada'')))] init) =
     [(''r1'', \<lparr>clients = [(''A'', \<lparr>name = ''Ada'', res = None\<rparr>)]\<rparr>)]"
  by (simp_all add: run_Cons run_Nil joined_example handleEventStream_def handleLeave_def
      removeClient_def onClose_def map_get_def map_delete_def emit_def Let_def
      del: JSON_stringify.simps)

text \<open>
  The invariant of C4 on a worked life cycle: the room exists once its first session has
  joined, and is gone after the last session left, by a leave or by a closed stream.
\<close>

theorem room_registered_iff_sessions_witness:
  "map_get (rooms (run (\<lambda>s. None)
      [Join 4 ''A'' (Some (join_body (JStr '' r1 '') (JStr ''Ada'')))] init)) ''r1'' \<noteq> None
   \<and> sessions (run (\<lambda>s. None)
      [Join 4 ''A'' (Some (join_body (JStr '' r1 '') (JStr ''Ada'')))] init) ''r1'' \<noteq> []
   \<and> map_get (rooms (run (\<lambda>s. None)
      [Join 4 ''A'' (Some (join_body (JStr '' r1 '') (JStr ''Ada''))),
       Events 6 (Some ''r1'') (Some ''A''),
       Leave 8 (Some (JObj [(''room'', JStr ''r1''), (''clientId'', JStr ''A'')]))] init)) ''r1'' = None
   \<and> sessions (run (\<lambda>s. None)
      [Join 4 ''A'' (Some (join_body (JStr '' r1 '') (JStr ''Ada''))),
       Events 6 (Some ''r1'') (Some ''A''),
       Leave 8 (Some (JObj [(''room'', JStr ''r1''), (''clientId'', JStr ''A'')]))] init) ''r1'' = []
   \<and> map_get (rooms (run (\<lambda>s. None)
      [Join 4 ''A'' (Some (join_body (JStr '' r1 '') (JStr ''Ada''))),
       Events 6 (Some ''r1'') (Some ''A''),
       Closed 6 ''r1'' ''A''] init)) ''r1'' = None
   \<and> sessions (run (\<lambda>s. None)
      [Join 4 ''A'' (Some (join_body (JStr '' r1 '') (JStr ''Ada''))),
       Events 6 (Some ''r1'') (Some ''A''),
       Closed 6 ''r1'' ''A''] init) ''r1'' = []"
  using room_registered_iff_sessions [of "\<lambda>s. None"
      "[Join 4 ''A'' (Some (join_body (JStr '' r1 '') (JStr ''Ada'')))]" "''r1''"]
    room_registered_iff_sessions [of "\<lambda>s. None"
      "[Join 4 ''A'' (Some (join_body (JStr '' r1 '') (JStr ''Ada''))),
       Events 6 (Some ''r1'') (Some ''A''),
       Leave 8 (Some (JObj [(''room'', JStr ''r1''), (''clientId'', JStr ''A'')]))]" "''r1''"]
    room_registered_iff_sessions [of "\<lambda>s. None"
      "[Join 4 ''A'' (Some (join_body (JStr '' r1 '') (JStr ''Ada''))),
       Events 6 (Some ''r1'') (Some ''A''),
       Closed 6 ''r1'' ''A'']" "''r1''"]
  by (simp add: lifecycle_example map_get_def)

end
